theory Spec2Isabelle
  imports Complex_Main "HOL-Library.Multiset"
begin

section \<open>MemeMarket: market simulation and wager resolution\<close>

text \<open>
  A shallow embedding of the TypeScript services of the repository: the market engine
  (quotes, price ticks, shocks, portfolio resolution), the prediction engine (odds and
  verdicts), the staking and tournament services, the analytics streak scan and the two
  React handlers that place a bet.

  Conventions of the embedding.
  \<^item> A JavaScript \<open>number\<close> that the program reads from its input (scores, timestamps,
    balances, stakes) is a finite number and is modelled as a \<open>real\<close>; arithmetic on such
    values is exact (binary rounding of IEEE doubles is not modelled).
  \<^item> Where the source divides by a value that can be zero, or stores \<open>Infinity\<close>, the result
    is a \<open>jsnum\<close>: a finite real, one of the two infinities, or \<open>NaN\<close>. Zero is unsigned.
  \<^item> \<open>Date.now()\<close> is the argument \<open>now\<close> (milliseconds), \<open>new Date().getHours()\<close> is the
    argument \<open>hour\<close>, and each \<open>Math.random()\<close> is a draw \<open>rnd k\<close> from a stream
    \<open>rnd :: nat \<Rightarrow> real\<close> read at a cursor that the functions thread.
  \<^item> A lookup \<open>TABLE[key]\<close> on an object literal finds the table's own property,
    or else a member inherited from \<open>Object.prototype\<close> (such as \<open>constructor\<close>),
    or else nothing (\<open>undefined\<close>).
  \<^item> Mutation of service state is explicit state passing; every early return of the
    source is a branch of the model.
\<close>

subsection \<open>JavaScript numbers that may leave the finite range\<close>

datatype jsnum = Fin real | PInf | NInf | NaN

fun jneg :: "jsnum \<Rightarrow> jsnum" where
  "jneg (Fin a) = Fin (- a)"
| "jneg PInf = NInf"
| "jneg NInf = PInf"
| "jneg NaN = NaN"

fun jadd :: "jsnum \<Rightarrow> jsnum \<Rightarrow> jsnum" where
  "jadd NaN _ = NaN"
| "jadd _ NaN = NaN"
| "jadd (Fin a) (Fin b) = Fin (a + b)"
| "jadd PInf NInf = NaN"
| "jadd NInf PInf = NaN"
| "jadd PInf _ = PInf"
| "jadd _ PInf = PInf"
| "jadd NInf _ = NInf"
| "jadd _ NInf = NInf"

definition jsub :: "jsnum \<Rightarrow> jsnum \<Rightarrow> jsnum" where
  "jsub x y = jadd x (jneg y)"

text \<open>The sign of a product with an infinite factor; \<open>0 * Infinity\<close> is \<open>NaN\<close>.\<close>

definition jsigned_inf :: "real \<Rightarrow> jsnum" where
  "jsigned_inf s = (if s = 0 then NaN else if 0 < s then PInf else NInf)"

fun jmul :: "jsnum \<Rightarrow> jsnum \<Rightarrow> jsnum" where
  "jmul NaN _ = NaN"
| "jmul _ NaN = NaN"
| "jmul (Fin a) (Fin b) = Fin (a * b)"
| "jmul (Fin a) PInf = jsigned_inf a"
| "jmul (Fin a) NInf = jsigned_inf (- a)"
| "jmul PInf (Fin b) = jsigned_inf b"
| "jmul NInf (Fin b) = jsigned_inf (- b)"
| "jmul PInf PInf = PInf"
| "jmul NInf NInf = PInf"
| "jmul PInf NInf = NInf"
| "jmul NInf PInf = NInf"

text \<open>
  Division: \<open>x / 0\<close> is an infinity with the sign of \<open>x\<close>, \<open>0 / 0\<close> is \<open>NaN\<close>; a finite
  value over an infinity is \<open>0\<close>; an infinity over an infinity is \<open>NaN\<close>.
\<close>

fun jdiv :: "jsnum \<Rightarrow> jsnum \<Rightarrow> jsnum" where
  "jdiv NaN _ = NaN"
| "jdiv _ NaN = NaN"
| "jdiv (Fin a) (Fin b) = (if b = 0 then jsigned_inf a else Fin (a / b))"
| "jdiv (Fin a) PInf = Fin 0"
| "jdiv (Fin a) NInf = Fin 0"
| "jdiv PInf (Fin b) = (if 0 \<le> b then PInf else NInf)"
| "jdiv NInf (Fin b) = (if 0 \<le> b then NInf else PInf)"
| "jdiv PInf _ = NaN"
| "jdiv NInf _ = NaN"

fun jabs :: "jsnum \<Rightarrow> jsnum" where
  "jabs (Fin a) = Fin \<bar>a\<bar>"
| "jabs PInf = PInf"
| "jabs NInf = PInf"
| "jabs NaN = NaN"

text \<open>\<open>x <= y\<close>: every comparison with \<open>NaN\<close> is false.\<close>

fun jle :: "jsnum \<Rightarrow> jsnum \<Rightarrow> bool" where
  "jle NaN _ = False"
| "jle _ NaN = False"
| "jle (Fin a) (Fin b) = (a \<le> b)"
| "jle NInf _ = True"
| "jle _ PInf = True"
| "jle PInf _ = False"
| "jle _ NInf = False"

fun jlt :: "jsnum \<Rightarrow> jsnum \<Rightarrow> bool" where
  "jlt NaN _ = False"
| "jlt _ NaN = False"
| "jlt (Fin a) (Fin b) = (a < b)"
| "jlt PInf _ = False"
| "jlt _ NInf = False"
| "jlt NInf _ = True"
| "jlt _ PInf = True"

text \<open>\<open>Math.max\<close> and \<open>Math.min\<close> return \<open>NaN\<close> as soon as one argument is \<open>NaN\<close>.\<close>

fun jmax :: "jsnum \<Rightarrow> jsnum \<Rightarrow> jsnum" where
  "jmax NaN _ = NaN"
| "jmax _ NaN = NaN"
| "jmax x y = (if jle x y then y else x)"

fun jmin :: "jsnum \<Rightarrow> jsnum \<Rightarrow> jsnum" where
  "jmin NaN _ = NaN"
| "jmin _ NaN = NaN"
| "jmin x y = (if jle x y then x else y)"

text \<open>\<open>Math.round\<close> rounds half up: \<open>Math.round x = floor (x + 0.5)\<close>.\<close>

definition js_round :: "real \<Rightarrow> real" where
  "js_round x = of_int \<lfloor>x + 1 / 2\<rfloor>"

definition js_floor :: "real \<Rightarrow> real" where
  "js_floor x = of_int \<lfloor>x\<rfloor>"

fun jround :: "jsnum \<Rightarrow> jsnum" where
  "jround (Fin a) = Fin (js_round a)"
| "jround x = x"

subsection \<open>Property lookup on object literals\<close>

text \<open>
  The configuration tables are object literals, so their prototype is
  \<open>Object.prototype\<close>. These are the names of its members (ECMAScript, with the
  legacy accessors of Annex B); each of them is a function, except \<open>__proto__\<close>, which
  reads as the prototype object itself. All of them are truthy.
\<close>

definition OBJECT_PROTOTYPE_KEYS :: "string list" where
  "OBJECT_PROTOTYPE_KEYS =
     [''constructor'', ''__defineGetter__'', ''__defineSetter__'', ''hasOwnProperty'',
      ''__lookupGetter__'', ''__lookupSetter__'', ''isPrototypeOf'',
      ''propertyIsEnumerable'', ''toString'', ''valueOf'', ''__proto__'',
      ''toLocaleString'']"

datatype 'a js_prop = Own 'a | Inherited | Absent

definition js_get :: "(string \<times> 'a) list \<Rightarrow> string \<Rightarrow> 'a js_prop" where
  "js_get table key =
     (case map_of table key of
        Some v \<Rightarrow> Own v
      | None \<Rightarrow> if key \<in> set OBJECT_PROTOTYPE_KEYS then Inherited else Absent)"

text \<open>
  The value of \<open>TABLE[key] || fallback\<close> for a table of numbers: a number, or an inherited
  member (an object). A missing key and the number \<open>0\<close> are falsy. In a product an object
  converts to \<open>NaN\<close>.
\<close>

datatype js_factor = Number real | ObjectMember

fun js_or_prop :: "real js_prop \<Rightarrow> real \<Rightarrow> js_factor" where
  "js_or_prop (Own v) d = (if v = 0 then Number d else Number v)"
| "js_or_prop Inherited d = ObjectMember"
| "js_or_prop Absent d = Number d"

fun to_number :: "js_factor \<Rightarrow> jsnum" where
  "to_number (Number r) = Fin r"
| "to_number ObjectMember = NaN"

subsection \<open>Data model (\<open>src/types/index.ts\<close>)\<close>

record RedditPost =
  post_id :: string
  post_title :: string
  post_author :: string
  post_subreddit :: string
  post_score :: real
  post_commentCount :: real
  post_created :: real
  post_url :: string
  post_thumbnail :: "string option"
  post_selftext :: "string option"
  post_isIPO :: "bool option"

datatype trend = Up | Down | Stable

record MarketData =
  md_postId :: string
  currentPrice :: jsnum
  previousPrice :: jsnum
  volume :: real
  changePercent :: jsnum
  lastUpdated :: real
  md_trend :: trend
  ranking :: "real option"

datatype timeOfDay = Peak | Normal | Quiet

record MarketConditions =
  mc_postAge :: real
  mc_currentRanking :: real
  mc_subredditMultiplier :: real
  mc_timeOfDay :: timeOfDay

datatype prediction_status = Active | Won | Lost | Pending

text \<open>
  \<open>predictionType\<close> and \<open>timeframe\<close> are strings: the handlers hold them as string state
  and cast them (\<open>as any\<close>) into the prediction. \<open>resolved\<close> is \<open>number | null\<close>.
\<close>

record Prediction =
  pred_id :: string
  pred_userId :: string
  pred_postId :: string
  pred_postUrl :: string
  pred_postTitle :: string
  predictionType :: string
  targetValue :: real
  timeframe :: string
  betAmount :: real
  odds :: real
  status :: prediction_status
  pred_created :: real
  resolved :: "real option"
  baselineValue :: real
  volatilityFactor :: real
  marketConditions :: MarketConditions

datatype rarity = Common | Rare | Epic | Legendary

record Achievement =
  ach_id :: string
  ach_name :: string
  ach_description :: string
  ach_icon :: string
  unlockedAt :: real
  ach_rarity :: rarity

record UserPortfolio =
  userId :: string
  memeCoins :: real
  totalValue :: real
  predictions :: "Prediction list"
  achievements :: "Achievement list"
  level :: nat
  experience :: real
  stakedCoins :: real
  stakingRewards :: real
  lastStakingClaim :: real
  tournamentPoints :: real
  currentTournament :: "string option"
  alertsEnabled :: bool
  favoriteSubreddits :: "string list"
  winStreak :: real
  lossStreak :: real
  bestWin :: real
  perfectDays :: real

record TournamentParticipant =
  tp_userId :: string
  tp_username :: string
  points :: real
  rank :: nat
  tp_predictions :: nat
  winRate :: real

datatype tournament_status = TUpcoming | TActive | TCompleted

record Tournament =
  t_id :: string
  t_name :: string
  t_description :: string
  startDate :: real
  endDate :: real
  prizePool :: real
  entryFee :: real
  maxParticipants :: nat
  currentParticipants :: nat
  t_status :: tournament_status
  rules :: "string list"
  leaderboard :: "TournamentParticipant list"

record StakingTier =
  minAmount :: real
  maxAmount :: jsnum
  apr :: real
  tier_name :: string
  tier_color :: string
  benefits :: "string list"

record MarketSector =
  sec_id :: string
  sec_name :: string
  sec_description :: string
  sec_emoji :: string
  activeUntil :: real
  multiplier :: real
  sec_keywords :: "string list"

subsection \<open>Analytics: streaks (\<open>AnalyticsService.calculateStreaks\<close>)\<close>

record StreakStats =
  currentWinStreak :: nat
  currentLossStreak :: nat
  bestWinStreak :: nat
  bestLossStreak :: nat
  totalPredictions :: nat
  totalWins :: nat
  totalLosses :: nat

text \<open>
  \<open>.sort((a, b) => b.created - a.created)\<close>: a stable sort, most recent first.
\<close>

definition completedPredictions :: "UserPortfolio \<Rightarrow> Prediction list" where
  "completedPredictions portfolio =
     sort_key (\<lambda>p. - pred_created p)
       (filter (\<lambda>p. status p = Won \<or> status p = Lost) (predictions portfolio))"

text \<open>
  The loop over \<open>completedPredictions\<close>; the accumulator \<open>(bestW, bestL, tempW, tempL)\<close> holds
  \<open>bestWinStreak\<close>, \<open>bestLossStreak\<close>, \<open>tempWinStreak\<close> and \<open>tempLossStreak\<close>.
\<close>

fun streak_loop :: "Prediction list \<Rightarrow> nat \<times> nat \<times> nat \<times> nat \<Rightarrow> nat \<times> nat \<times> nat \<times> nat" where
  "streak_loop [] acc = acc"
| "streak_loop (p # ps) (bestW, bestL, tempW, tempL) =
     (if status p = Won
      then streak_loop ps (if tempW + 1 > bestW then tempW + 1 else bestW, bestL, tempW + 1, 0)
      else streak_loop ps (bestW, if tempL + 1 > bestL then tempL + 1 else bestL, 0, tempL + 1))"

definition calculateStreaks :: "UserPortfolio \<Rightarrow> StreakStats" where
  "calculateStreaks portfolio =
     (let completed = completedPredictions portfolio;
          (bestW, bestL, tempW, tempL) = streak_loop completed (0, 0, 0, 0)
      in \<lparr> currentWinStreak =
             (case completed of [] \<Rightarrow> 0
              | mostRecent # _ \<Rightarrow> if status mostRecent = Won then tempW else 0),
           currentLossStreak =
             (case completed of [] \<Rightarrow> 0
              | mostRecent # _ \<Rightarrow> if status mostRecent = Won then 0 else tempL),
           bestWinStreak = bestW,
           bestLossStreak = bestL,
           totalPredictions = length completed,
           totalWins = length (filter (\<lambda>p. status p = Won) completed),
           totalLosses = length (filter (\<lambda>p. status p = Lost) completed) \<rparr>)"

text \<open>
  The streak the documentation describes: the number of consecutive predictions of one
  status counted from the most recent resolved prediction backward.
\<close>

definition leading_run :: "prediction_status \<Rightarrow> Prediction list \<Rightarrow> nat" where
  "leading_run s ps = length (takeWhile (\<lambda>p. status p = s) ps)"

subsection \<open>Configuration (\<open>src/utils/constants.ts\<close>)\<close>

definition INITIAL_MEMECOINS :: real where "INITIAL_MEMECOINS = 1000"
definition MIN_BET_AMOUNT :: real where "MIN_BET_AMOUNT = 10"
definition MAX_BET_AMOUNT :: real where "MAX_BET_AMOUNT = 1000"
definition SECTOR_DURATION :: real where "SECTOR_DURATION = 24 * 60 * 60 * 1000"
definition BASE_VOLATILITY :: real where "BASE_VOLATILITY = 2 / 100"
definition RANDOM_VOLATILITY_RANGE :: real where "RANDOM_VOLATILITY_RANGE = 2 / 100"
definition MIN_VOLATILITY :: real where "MIN_VOLATILITY = 5 / 1000"
definition VOLATILITY_MULTIPLIER :: real where "VOLATILITY_MULTIPLIER = 1"
definition TIME_MULTIPLIER_MAX :: real where "TIME_MULTIPLIER_MAX = 15 / 10"
definition TIME_MULTIPLIER_BASE :: real where "TIME_MULTIPLIER_BASE = 30"
definition RANDOM_FACTOR_RANGE :: real where "RANDOM_FACTOR_RANGE = 3 / 100"
definition TRENDING_BIAS_FACTOR :: real where "TRENDING_BIAS_FACTOR = 5 / 1000"
definition MAX_PRICE_CHANGE_PERCENT :: real where "MAX_PRICE_CHANGE_PERCENT = 5 / 10"
definition MIN_PRICE :: real where "MIN_PRICE = 1 / 100"
definition VOLUME_INCREASE_MIN :: real where "VOLUME_INCREASE_MIN = 5"
definition VOLUME_INCREASE_MAX :: real where "VOLUME_INCREASE_MAX = 30"
definition PREDICTION_EXPIRY_HOURS :: real where "PREDICTION_EXPIRY_HOURS = 24"
definition EVENT_DURATION_MINUTES :: real where "EVENT_DURATION_MINUTES = 5"
definition SCORE_MULTIPLIER :: real where "SCORE_MULTIPLIER = 1 / 1000"
definition MAX_SCORE_VALUE :: real where "MAX_SCORE_VALUE = 2"

text \<open>
  \<open>value || fallback\<close> on an optional number: \<open>undefined\<close> and the number \<open>0\<close> are falsy.
\<close>

fun js_or :: "real option \<Rightarrow> real \<Rightarrow> real" where
  "js_or None d = d"
| "js_or (Some v) d = (if v = 0 then d else v)"

definition SUBREDDIT_MULTIPLIERS :: "(string \<times> real) list" where
  "SUBREDDIT_MULTIPLIERS =
     [(''memes'', 13 / 10), (''programmerhumor'', 14 / 10), (''gaming'', 12 / 10),
      (''cats'', 13 / 10), (''askreddit'', 15 / 10), (''todayilearned'', 14 / 10),
      (''nextfuckinglevel'', 16 / 10), (''interestingasfuck'', 15 / 10), (''wtf'', 12 / 10),
      (''politics'', 11 / 10), (''funny'', 12 / 10), (''aww'', 14 / 10), (''news'', 11 / 10)]"

record PredictionTypeConfig =
  ptc_id :: string
  baseOdds :: real
  timeBased :: bool
  difficulty :: string

text \<open>The keys of \<open>PREDICTION_TYPES\<close> are upper case; the \<open>id\<close> fields are lower case.\<close>

definition PREDICTION_TYPES :: "(string \<times> PredictionTypeConfig) list" where
  "PREDICTION_TYPES =
     [(''GROWTH_RATE'',
         \<lparr>ptc_id = ''growth_rate'', baseOdds = 2, timeBased = True, difficulty = ''medium''\<rparr>),
      (''MILESTONE_REACH'',
         \<lparr>ptc_id = ''milestone_reach'', baseOdds = 18 / 10, timeBased = True,
          difficulty = ''medium''\<rparr>),
      (''RANKING_POSITION'',
         \<lparr>ptc_id = ''ranking_position'', baseOdds = 3, timeBased = False,
          difficulty = ''hard''\<rparr>),
      (''ENGAGEMENT_RATIO'',
         \<lparr>ptc_id = ''engagement_ratio'', baseOdds = 25 / 10, timeBased = True,
          difficulty = ''hard''\<rparr>),
      (''VIRALITY_INDEX'',
         \<lparr>ptc_id = ''virality_index'', baseOdds = 4, timeBased = True,
          difficulty = ''expert''\<rparr>)]"

record TimeframeConfig =
  hours :: real
  tf_volatility :: real
  baseMultiplier :: real

definition PREDICTION_TIMEFRAMES :: "(string \<times> TimeframeConfig) list" where
  "PREDICTION_TIMEFRAMES =
     [(''SHORT'', \<lparr>hours = 6, tf_volatility = 12 / 10, baseMultiplier = 15 / 10\<rparr>),
      (''MEDIUM'', \<lparr>hours = 12, tf_volatility = 1, baseMultiplier = 12 / 10\<rparr>),
      (''LONG'', \<lparr>hours = 24, tf_volatility = 8 / 10, baseMultiplier = 1\<rparr>),
      (''EXTENDED'', \<lparr>hours = 48, tf_volatility = 6 / 10, baseMultiplier = 8 / 10\<rparr>)]"

record Level =
  lv_level :: nat
  lv_experience :: real
  lv_title :: string

definition LEVELS :: "Level list" where
  "LEVELS =
     [\<lparr>lv_level = 1, lv_experience = 0, lv_title = ''Market Newbie''\<rparr>,
      \<lparr>lv_level = 2, lv_experience = 100, lv_title = ''Trend Spotter''\<rparr>,
      \<lparr>lv_level = 3, lv_experience = 250, lv_title = ''Market Analyst''\<rparr>,
      \<lparr>lv_level = 4, lv_experience = 500, lv_title = ''Prediction Pro''\<rparr>,
      \<lparr>lv_level = 5, lv_experience = 1000, lv_title = ''Meme Lord''\<rparr>,
      \<lparr>lv_level = 6, lv_experience = 2000, lv_title = ''Market Wizard''\<rparr>,
      \<lparr>lv_level = 7, lv_experience = 3500, lv_title = ''Reddit Oracle''\<rparr>,
      \<lparr>lv_level = 8, lv_experience = 5000, lv_title = ''Legendary Trader''\<rparr>,
      \<lparr>lv_level = 9, lv_experience = 7500, lv_title = ''Meme Market God''\<rparr>,
      \<lparr>lv_level = 10, lv_experience = 10000, lv_title = ''Supreme Predictor''\<rparr>]"

definition bronze :: StakingTier where
  "bronze = \<lparr>minAmount = 0, maxAmount = Fin 999, apr = 5, tier_name = ''Bronze Staker'',
     tier_color = ''bronze'', benefits = [''Basic staking rewards'', ''Community access'']\<rparr>"

definition STAKING_TIERS :: "StakingTier list" where
  "STAKING_TIERS =
     [bronze,
      \<lparr>minAmount = 1000, maxAmount = Fin 4999, apr = 85 / 10, tier_name = ''Silver Staker'',
       tier_color = ''silver'',
       benefits = [''Higher APR'', ''Priority support'', ''Exclusive tournaments'']\<rparr>,
      \<lparr>minAmount = 5000, maxAmount = Fin 9999, apr = 12, tier_name = ''Gold Staker'',
       tier_color = ''gold'',
       benefits = [''Premium APR'', ''VIP support'', ''Early access to features'',
                   ''Monthly bonuses'']\<rparr>,
      \<lparr>minAmount = 10000, maxAmount = PInf, apr = 15, tier_name = ''Diamond Staker'',
       tier_color = ''diamond'',
       benefits = [''Maximum APR'', ''24/7 concierge'', ''Beta feature access'',
                   ''Custom tournaments'', ''Revenue sharing'']\<rparr>]"

definition ENTRY_FEE :: real where "ENTRY_FEE = 100"
definition DURATION_HOURS :: real where "DURATION_HOURS = 24"
definition MAX_PARTICIPANTS :: nat where "MAX_PARTICIPANTS = 100"
definition PRIZE_DISTRIBUTION :: "real list" where
  "PRIZE_DISTRIBUTION = [5 / 10, 25 / 100, 15 / 100, 1 / 10]"
definition POINTS_PER_WIN :: real where "POINTS_PER_WIN = 10"
definition POINTS_PER_LOSS :: real where "POINTS_PER_LOSS = - 2"
definition BONUS_MULTIPLIER :: real where "BONUS_MULTIPLIER = 15 / 10"
definition STAKING_CLAIM_INTERVAL :: real where "STAKING_CLAIM_INTERVAL = 3600000"

subsection \<open>Prediction engine (\<open>src/services/PredictionEngine.ts\<close>)\<close>

record Conditions =
  postAge :: real
  currentRanking :: real
  subredditMultiplier :: js_factor
  cond_timeOfDay :: timeOfDay
  currentUpvotes :: real
  currentComments :: real
  growthRate :: real

definition hoursOld :: "real \<Rightarrow> RedditPost \<Rightarrow> real" where
  \<comment> \<open>\<open>(Date.now() - post.created * 1000) / (1000 * 60 * 60)\<close>\<close>
  "hoursOld now post = (now - post_created post * 1000) / (1000 * 60 * 60)"

definition calculateGrowthRate :: "real \<Rightarrow> RedditPost \<Rightarrow> real" where
  "calculateGrowthRate now post =
     (let age = hoursOld now post in if age \<le> 0 then 0 else post_score post / age)"

definition currentTimeOfDay :: "nat \<Rightarrow> timeOfDay" where
  "currentTimeOfDay currentTime =
     (if currentTime \<ge> 20 \<and> currentTime \<le> 22 then Peak
      else if currentTime \<ge> 22 \<or> currentTime \<le> 10 then Quiet
      else Normal)"

definition analyzeMarketConditions :: "real \<Rightarrow> nat \<Rightarrow> RedditPost \<Rightarrow> MarketData \<Rightarrow> Conditions" where
  "analyzeMarketConditions now hour post marketData =
     \<lparr> postAge = hoursOld now post,
       currentRanking = js_or (ranking marketData) 50,
       subredditMultiplier = js_or_prop (js_get SUBREDDIT_MULTIPLIERS (post_subreddit post)) 1,
       cond_timeOfDay = currentTimeOfDay hour,
       currentUpvotes = post_score post,
       currentComments = post_commentCount post,
       growthRate = calculateGrowthRate now post \<rparr>"

definition postAgeFactor :: "real \<Rightarrow> real" where
  "postAgeFactor age =
     (if age \<le> 1 then 1
      else if age \<le> 3 then 8 / 10
      else if age \<le> 6 then 6 / 10
      else if age \<le> 12 then 4 / 10
      else if age \<le> 24 then 3 / 10
      else 2 / 10)"

definition rankingFactor :: "real \<Rightarrow> real" where
  "rankingFactor r =
     (if r \<le> 5 then 9 / 10
      else if r \<le> 20 then 7 / 10
      else if r \<le> 50 then 5 / 10
      else 3 / 10)"

fun timeOfDayFactor :: "timeOfDay \<Rightarrow> real" where
  "timeOfDayFactor Peak = 12 / 10"
| "timeOfDayFactor Normal = 1"
| "timeOfDayFactor Quiet = 8 / 10"

definition calculateVolatilityFactor :: "Conditions \<Rightarrow> real" where
  "calculateVolatilityFactor conditions =
     1 * postAgeFactor (postAge conditions) * rankingFactor (currentRanking conditions)
       * timeOfDayFactor (cond_timeOfDay conditions)"

definition calculateDifficultyMultiplier ::
  "string \<Rightarrow> RedditPost \<Rightarrow> real \<Rightarrow> Conditions \<Rightarrow> jsnum" where
  "calculateDifficultyMultiplier ptype post target conditions =
     (if ptype = ''growth_rate'' then
        (let expectedGrowth = growthRate conditions * 24;
             growthDifficulty = jdiv (Fin \<bar>target - expectedGrowth\<bar>) (Fin expectedGrowth)
         in jmax (Fin (5 / 10)) (jmin (Fin 2) (jadd (Fin 1) growthDifficulty)))
      else if ptype = ''milestone_reach'' then
        (let milestoneDifficulty = target / max 1 (post_score post)
         in Fin (max (8 / 10) (min 3 (milestoneDifficulty / 2))))
      else if ptype = ''ranking_position'' then
        (if target \<le> 5 then Fin (25 / 10)
         else if target \<le> 20 then Fin (18 / 10)
         else if target \<le> 50 then Fin (12 / 10)
         else Fin (8 / 10))
      else if ptype = ''engagement_ratio'' then
        (let currentRatio = post_commentCount post / max 1 (post_score post);
             ratioDifficulty = jdiv (Fin \<bar>target - currentRatio\<bar>) (Fin currentRatio)
         in jmax (Fin (7 / 10)) (jmin (Fin (25 / 10)) (jadd (Fin 1) ratioDifficulty)))
      else if ptype = ''virality_index'' then Fin 2
      else Fin 1)"

text \<open>
  When the prediction type names an inherited member, \<open>predictionConfig\<close> is that member,
  which passes the test \<open>!predictionConfig\<close>; its \<open>baseOdds\<close> is \<open>undefined\<close> and the
  first product makes it \<open>NaN\<close>. An inherited member has no \<open>baseMultiplier\<close> either, so
  for the timeframe the fallback 1.0 applies.
\<close>

definition calculateOdds ::
  "real \<Rightarrow> nat \<Rightarrow> RedditPost \<Rightarrow> MarketData \<Rightarrow> string \<Rightarrow> real \<Rightarrow> string \<Rightarrow> jsnum" where
  "calculateOdds now hour post marketData ptype target tf =
     (case js_get PREDICTION_TYPES ptype of
        Absent \<Rightarrow> Fin 2
      | predictionConfig \<Rightarrow>
          (let conditions = analyzeMarketConditions now hour post marketData;
               volatilityFactor = calculateVolatilityFactor conditions;
               timeMultiplier =
                 js_or (case js_get PREDICTION_TIMEFRAMES tf of
                          Own t \<Rightarrow> Some (baseMultiplier t) | _ \<Rightarrow> None) 1;
               b0 = (case predictionConfig of Own cfg \<Rightarrow> Fin (baseOdds cfg) | _ \<Rightarrow> NaN);
               b1 = jmul b0 (Fin volatilityFactor);
               b2 = jmul b1 (Fin timeMultiplier);
               subMultiplier = js_or_prop (js_get SUBREDDIT_MULTIPLIERS (post_subreddit post)) 1;
               b3 = jmul b2 (to_number subMultiplier);
               difficultyMultiplier =
                 calculateDifficultyMultiplier ptype post target conditions;
               b4 = jmul b3 difficultyMultiplier
           in jmax (Fin (11 / 10)) (jmin (Fin 50) b4)))"

definition calculateViralityScore :: "real \<Rightarrow> RedditPost \<Rightarrow> MarketData \<Rightarrow> jsnum" where
  "calculateViralityScore now post marketData =
     (let upvotes = post_score post;
          comments = post_commentCount post;
          age = hoursOld now post;
          rk = js_or (ranking marketData) 100;
          rate = upvotes / max 1 age;
          engagement = upvotes + comments * 2;
          competition = max 1 (rk / 10)
      in jdiv (Fin (engagement * rate)) (Fin (age * competition)))"

text \<open>
  \<open>PREDICTION_TIMEFRAMES[prediction.timeframe].hours\<close> throws a \<open>TypeError\<close> when the
  lookup finds nothing. When it finds an inherited member, \<open>hours\<close> is \<open>undefined\<close>: the
  resolution time is \<open>NaN\<close>, the deadline test is false and the verdict is computed.
\<close>

datatype js_error = TypeError | Error string

definition resolvePrediction ::
  "real \<Rightarrow> Prediction \<Rightarrow> RedditPost \<Rightarrow> MarketData \<Rightarrow> js_error + bool" where
  "resolvePrediction now prediction currentPost marketData =
     (case js_get PREDICTION_TIMEFRAMES (timeframe prediction) of
        Absent \<Rightarrow> Inl TypeError
      | tf \<Rightarrow>
          (let tfHours = (case tf of Own cfg \<Rightarrow> Fin (hours cfg) | _ \<Rightarrow> NaN);
               resolutionTime =
                 jadd (Fin (pred_created prediction))
                      (jmul (jmul (jmul tfHours (Fin 60)) (Fin 60)) (Fin 1000))
           in if jlt (Fin now) resolutionTime then Inr False
              else if predictionType prediction = ''growth_rate'' then
                (let actualGrowthRate =
                       jdiv (Fin (post_score currentPost - baselineValue prediction)) tfHours
                 in Inr (jle (jabs (jsub actualGrowthRate (Fin (targetValue prediction))))
                             (Fin (targetValue prediction * (1 / 10)))))
              else if predictionType prediction = ''milestone_reach'' then
                Inr (post_score currentPost \<ge> targetValue prediction)
              else if predictionType prediction = ''ranking_position'' then
                Inr (ranking marketData = Some (targetValue prediction))
              else if predictionType prediction = ''engagement_ratio'' then
                (let actualRatio =
                       post_commentCount currentPost / max 1 (post_score currentPost)
                 in Inr (\<bar>actualRatio - targetValue prediction\<bar>
                           \<le> targetValue prediction * (15 / 100)))
              else if predictionType prediction = ''virality_index'' then
                (let viralityScore = calculateViralityScore now currentPost marketData
                 in Inr (jle (jabs (jsub viralityScore (Fin (targetValue prediction))))
                             (Fin (targetValue prediction * (2 / 10)))))
              else Inr False))"

subsection \<open>Levels (\<open>calculateLevel\<close> in the helpers)\<close>

record LevelInfo =
  li_level :: nat
  li_title :: string
  li_progress :: real

text \<open>
  The loop runs from the highest level down; \<open>nxt\<close> is \<open>LEVELS[i + 1]\<close>, absent at the
  top of the table.
\<close>

fun calculateLevel_loop :: "real \<Rightarrow> Level list \<Rightarrow> Level option \<Rightarrow> LevelInfo option" where
  "calculateLevel_loop e [] nxt = None"
| "calculateLevel_loop e (l # ls) nxt =
     (if e \<ge> lv_experience l then
        (case nxt of
           None \<Rightarrow> Some \<lparr>li_level = lv_level l, li_title = lv_title l, li_progress = 100\<rparr>
         | Some n \<Rightarrow>
             Some \<lparr>li_level = lv_level l, li_title = lv_title l,
                   li_progress =
                     min ((e - lv_experience l) / (lv_experience n - lv_experience l) * 100)
                         100\<rparr>)
      else calculateLevel_loop e ls (Some l))"

definition calculateLevel :: "real \<Rightarrow> LevelInfo" where
  "calculateLevel e =
     (case calculateLevel_loop e (rev LEVELS) None of
        Some info \<Rightarrow> info
      | None \<Rightarrow> \<lparr>li_level = 1, li_title = ''Market Newbie'', li_progress = 0\<rparr>)"

subsection \<open>Market engine (\<open>MarketEngine\<close>)\<close>

text \<open>
  \<open>marketData\<close> is a JavaScript object used as a dictionary; it is the association list
  of its own properties in insertion order, which is the order of \<open>Object.keys\<close>.
  An assignment \<open>marketData[key] = value\<close> rewrites an own property or adds one, except
  that for the key \<open>__proto__\<close>, when it is not an own property, it reaches the inherited
  setter and adds nothing.
\<close>

record MarketEngine =
  me_marketData :: "(string \<times> MarketData) list"
  me_sectors :: "MarketSector list"
  me_currentSector :: "MarketSector option"

fun store_put :: "string \<Rightarrow> MarketData \<Rightarrow> (string \<times> MarketData) list \<Rightarrow> (string \<times> MarketData) list" where
  "store_put k v [] = (if k = ''__proto__'' then [] else [(k, v)])"
| "store_put k v ((k', v') # rest) =
     (if k' = k then (k, v) # rest else (k', v') # store_put k v rest)"

definition sectorMultiplier :: "MarketEngine \<Rightarrow> real" where
  \<comment> \<open>\<open>this.currentSector?.multiplier || 1.0\<close>\<close>
  "sectorMultiplier e = js_or (map_option multiplier (me_currentSector e)) 1"

definition calculateMarketVolatility :: "real \<Rightarrow> MarketEngine \<Rightarrow> real" where
  "calculateMarketVolatility r e =
     (let randomVolatility = (r - 1 / 2) * RANDOM_VOLATILITY_RANGE
      in max MIN_VOLATILITY (BASE_VOLATILITY + randomVolatility) * sectorMultiplier e
           * VOLATILITY_MULTIPLIER)"

text \<open>
  One price tick of one quote. Five draws are read in the order of the source: the
  volatility, the random factor, the trending bias, the volume and the ranking. The
  method is private and its only caller, \<open>updateAllPrices\<close>, passes the own keys of
  \<open>marketData\<close>; for any other key the model leaves the state as it is.
\<close>

definition updatePostPrice ::
  "real \<Rightarrow> (nat \<Rightarrow> real) \<Rightarrow> string \<Rightarrow> MarketEngine \<times> nat \<Rightarrow> MarketEngine \<times> nat" where
  "updatePostPrice now rnd postId st =
     (let e = fst st; c = snd st in
      case map_of (me_marketData e) postId of
        None \<Rightarrow> (e, c)
      | Some currentData \<Rightarrow>
          (let prev = currentPrice currentData;
               marketVolatility = calculateMarketVolatility (rnd c) e;
               sectorInfluence = sectorMultiplier e;
               timeSinceLastUpdate = (now - lastUpdated currentData) / (1000 * 60);
               timeMultiplier =
                 min TIME_MULTIPLIER_MAX (timeSinceLastUpdate / TIME_MULTIPLIER_BASE);
               randomFactor = (rnd (c + 1) - 1 / 2) * RANDOM_FACTOR_RANGE * timeMultiplier;
               trendingBias = rnd (c + 2) * TRENDING_BIAS_FACTOR * timeMultiplier;
               totalChange = marketVolatility + randomFactor + trendingBias;
               sectorAdjustedChange = totalChange * sectorInfluence;
               priceChange =
                 max (- MAX_PRICE_CHANGE_PERCENT)
                     (min MAX_PRICE_CHANGE_PERCENT sectorAdjustedChange);
               newPrice = jmax (Fin MIN_PRICE) (jmul prev (Fin (1 + priceChange)));
               updatedData = currentData
                 \<lparr> currentPrice := jdiv (jround (jmul newPrice (Fin 100))) (Fin 100),
                   previousPrice := prev,
                   changePercent :=
                     jdiv (jround (jmul (jdiv (jsub newPrice prev) prev) (Fin 10000)))
                          (Fin 100),
                   md_trend :=
                     (if jlt prev newPrice then Up
                      else if jlt newPrice prev then Down else Stable),
                   lastUpdated := now,
                   volume :=
                     volume currentData + js_floor (rnd (c + 3) * VOLUME_INCREASE_MAX)
                       + VOLUME_INCREASE_MIN,
                   ranking := Some (js_floor (rnd (c + 4) * 100) + 1) \<rparr>
           in (e\<lparr>me_marketData := store_put postId updatedData (me_marketData e)\<rparr>, c + 5)))"

definition updateAllPrices :: "real \<Rightarrow> (nat \<Rightarrow> real) \<Rightarrow> MarketEngine \<times> nat \<Rightarrow> MarketEngine \<times> nat" where
  "updateAllPrices now rnd st =
     fold (updatePostPrice now rnd) (map fst (me_marketData (fst st))) st"

definition toLowerCase :: "string \<Rightarrow> string" where
  \<comment> \<open>ASCII letters only, which is the alphabet of subreddit names\<close>
  "toLowerCase s =
     map (\<lambda>ch. let n = (of_char ch :: nat)
                in if 65 \<le> n \<and> n \<le> 90 then char_of (n + 32) else ch) s"

definition getSubredditMultiplier :: "string \<Rightarrow> js_factor" where
  "getSubredditMultiplier subreddit =
     js_or_prop (js_get SUBREDDIT_MULTIPLIERS (toLowerCase subreddit)) 1"

definition calculateContentMultiplier :: "RedditPost \<Rightarrow> real" where
  "calculateContentMultiplier post =
     (let titleLength = length (post_title post);
          m1 = (if titleLength \<ge> 40 \<and> titleLength \<le> 100 then 1 * (11 / 10)
                else if titleLength < 20 \<or> titleLength > 150 then 1 * (9 / 10)
                else 1);
          m2 = (case post_selftext post of
                  Some t \<Rightarrow> if t \<noteq> [] \<and> length t > 100 then m1 * (105 / 100) else m1
                | None \<Rightarrow> m1);
          m3 = (case post_thumbnail post of
                  Some t \<Rightarrow> if t \<noteq> [] \<and> t \<noteq> ''self'' then m2 * (115 / 100) else m2
                | None \<Rightarrow> m2)
      in m3)"

definition calculateInitialPrice :: "real \<Rightarrow> real \<Rightarrow> RedditPost \<Rightarrow> MarketEngine \<Rightarrow> jsnum" where
  "calculateInitialPrice now r post e =
     (let basePrice = 1 / 10;
          scoreValue = min (post_score post * SCORE_MULTIPLIER) MAX_SCORE_VALUE;
          commentValue = ln (max 1 (post_commentCount post)) * (5 / 100);
          ageInHours = hoursOld now post;
          freshnessMultiplier = max (1 / 10) (min 2 (1 + (24 - ageInHours) * (2 / 100)));
          subMultiplier = getSubredditMultiplier (post_subreddit post);
          secMultiplier = sectorMultiplier e;
          contentMultiplier = calculateContentMultiplier post;
          volatility = 1 + (r - 1 / 2) * (3 / 10);
          finalPrice =
            jmul (jmul (jmul (jmul
              (Fin ((basePrice + scoreValue + commentValue) * freshnessMultiplier))
              (to_number subMultiplier)) (Fin secMultiplier)) (Fin contentMultiplier))
              (Fin volatility)
      in jmax (Fin (1 / 100)) (jdiv (jround (jmul finalPrice (Fin 100))) (Fin 100)))"

definition initializePostMarket ::
  "real \<Rightarrow> (nat \<Rightarrow> real) \<Rightarrow> RedditPost \<Rightarrow> MarketEngine \<times> nat \<Rightarrow> MarketData \<times> MarketEngine \<times> nat" where
  "initializePostMarket now rnd post st =
     (let e = fst st; c = snd st;
          initialPrice = calculateInitialPrice now (rnd c) post e;
          marketData =
            \<lparr> md_postId = post_id post,
              currentPrice = initialPrice,
              previousPrice = initialPrice,
              volume = js_floor (rnd (c + 1) * 1000) + 100,
              changePercent = Fin 0,
              lastUpdated = now,
              md_trend = Stable,
              ranking = None \<rparr>
      in (marketData,
          e\<lparr>me_marketData := store_put (post_id post) marketData (me_marketData e)\<rparr>,
          c + 2))"

datatype event_kind = Crash | Boom

record MarketEvent =
  ev_id :: string
  ev_type :: event_kind
  ev_title :: string
  ev_description :: string
  impact :: real
  duration :: real
  ev_created :: real

definition shockQuote :: "real \<Rightarrow> real \<Rightarrow> string \<Rightarrow> MarketEngine \<Rightarrow> MarketEngine" where
  \<comment> \<open>the body of the loop of \<open>triggerMarketEvent\<close> for one key\<close>
  "shockQuote now imp postId e =
     (case map_of (me_marketData e) postId of
        None \<Rightarrow> e
      | Some d \<Rightarrow>
          (let newPrice = jmax (Fin (1 / 100)) (jmul (currentPrice d) (Fin (1 + imp)));
               d' = d \<lparr> currentPrice := newPrice,
                        previousPrice := currentPrice d,
                        changePercent :=
                          jmul (jdiv (jsub newPrice (currentPrice d)) (currentPrice d))
                               (Fin 100),
                        md_trend := (if jlt (currentPrice d) newPrice then Up else Down),
                        lastUpdated := now \<rparr>
           in e\<lparr>me_marketData := store_put postId d' (me_marketData e)\<rparr>))"

text \<open>\<open>stamp\<close> is the decimal text of \<open>Date.now()\<close>, used in the event id.\<close>

definition triggerMarketEvent ::
  "real \<Rightarrow> string \<Rightarrow> event_kind \<Rightarrow> MarketEngine \<Rightarrow> MarketEvent \<times> MarketEngine" where
  "triggerMarketEvent now stamp eventType e =
     (let imp = (if eventType = Crash then - (3 / 10) else 2 / 10);
          event =
            \<lparr> ev_id = ''event_'' @ stamp,
              ev_type = eventType,
              ev_title = (if eventType = Crash then ''Market Crash!'' else ''Market Boom!''),
              ev_description =
                (if eventType = Crash then ''Panic selling has caused prices to plummet!''
                 else ''Investor confidence surges, prices are soaring!''),
              impact = imp,
              duration = EVENT_DURATION_MINUTES * 60 * 1000,
              ev_created = now \<rparr>
      in (event, fold (shockQuote now imp) (map fst (me_marketData e)) e))"

text \<open>
  The operations that create or mutate quotes, and a run of any number of them. Each
  operation carries its own clock reading.
\<close>

datatype market_op =
    InitializePostMarket real RedditPost
  | Tick real
  | TriggerMarketEvent real string event_kind

fun market_step :: "(nat \<Rightarrow> real) \<Rightarrow> market_op \<Rightarrow> MarketEngine \<times> nat \<Rightarrow> MarketEngine \<times> nat" where
  "market_step rnd (InitializePostMarket now post) st = snd (initializePostMarket now rnd post st)"
| "market_step rnd (Tick now) st = updateAllPrices now rnd st"
| "market_step rnd (TriggerMarketEvent now stamp k) st =
     (snd (triggerMarketEvent now stamp k (fst st)), snd st)"

definition market_run :: "(nat \<Rightarrow> real) \<Rightarrow> market_op list \<Rightarrow> MarketEngine \<times> nat \<Rightarrow> MarketEngine \<times> nat" where
  "market_run rnd ops st = fold (market_step rnd) ops st"

text \<open>
  An operation that initialises the quote of a post whose subreddit, in lower case, names
  an inherited member of \<open>SUBREDDIT_MULTIPLIERS\<close> is set apart.
\<close>

fun own_subreddit_op :: "market_op \<Rightarrow> bool" where
  "own_subreddit_op (InitializePostMarket now post) =
     (getSubredditMultiplier (post_subreddit post) \<noteq> ObjectMember)"
| "own_subreddit_op _ = True"

definition price_floor :: "MarketEngine \<Rightarrow> bool" where
  "price_floor e =
     (\<forall>kd \<in> set (me_marketData e). jle (Fin MIN_PRICE) (currentPrice (snd kd)))"

subsection \<open>Portfolio resolution (\<open>MarketEngine.resolvePredictions\<close>)\<close>

text \<open>
  The verdict of the \<open>switch\<close> for one active prediction whose post is present. Only the
  \<open>ranking_position\<close> case reads a draw.
\<close>

definition resolveVerdict ::
  "real \<Rightarrow> (nat \<Rightarrow> real) \<Rightarrow> nat \<Rightarrow> Prediction \<Rightarrow> RedditPost \<Rightarrow> bool \<times> nat" where
  "resolveVerdict now rnd c prediction post =
     (let age = hoursOld now post; target = targetValue prediction in
      if predictionType prediction = ''growth_rate'' then
        (\<bar>post_score post / max 1 age - target\<bar> \<le> target * (1 / 10), c)
      else if predictionType prediction = ''milestone_reach'' then
        (post_score post \<ge> target, c)
      else if predictionType prediction = ''ranking_position'' then
        (js_floor (rnd c * 50) + 1 = target, c + 1)
      else if predictionType prediction = ''engagement_ratio'' then
        (\<bar>post_commentCount post / max 1 (post_score post) - target\<bar>
           \<le> target * (15 / 100), c)
      else if predictionType prediction = ''virality_index'' then
        (\<bar>(post_score post + post_commentCount post * 2) / max 1 age - target\<bar>
           \<le> target * (2 / 10), c)
      else (False, c))"

text \<open>
  The callback of \<open>portfolio.predictions.map\<close>. The expiry test subtracts \<open>post.created\<close>
  as it stands (seconds) from \<open>Date.now()\<close> (milliseconds), as the source does.
\<close>

definition resolveOne ::
  "real \<Rightarrow> (nat \<Rightarrow> real) \<Rightarrow> RedditPost list \<Rightarrow> Prediction \<Rightarrow> nat \<Rightarrow> Prediction \<times> nat" where
  "resolveOne now rnd redditPosts prediction c =
     (if status prediction \<noteq> Active then (prediction, c)
      else case find (\<lambda>p. post_id p = pred_postId prediction) redditPosts of
        None \<Rightarrow> (prediction, c)
      | Some post \<Rightarrow>
          (let v = resolveVerdict now rnd c prediction post in
           if fst v then (prediction\<lparr>status := Won, resolved := Some now\<rparr>, snd v)
           else
             (let postAgeMs = now - post_created post;
                  maxPredictionAge = PREDICTION_EXPIRY_HOURS * 60 * 60 * 1000
              in if postAgeMs > maxPredictionAge
                 then (prediction\<lparr>status := Lost, resolved := Some now\<rparr>, snd v)
                 else (prediction, snd v))))"

fun resolveEach ::
  "real \<Rightarrow> (nat \<Rightarrow> real) \<Rightarrow> RedditPost list \<Rightarrow> Prediction list \<Rightarrow> nat \<Rightarrow> Prediction list \<times> nat" where
  "resolveEach now rnd redditPosts [] c = ([], c)"
| "resolveEach now rnd redditPosts (p # ps) c =
     (let r = resolveOne now rnd redditPosts p c;
          rest = resolveEach now rnd redditPosts ps (snd r)
      in (fst r # fst rest, snd rest))"

text \<open>
  The \<open>forEach\<close> that credits winnings; the accumulator is \<open>(memeCoins, experience)\<close>.
  The guard of the source is \<open>prediction.status === 'won' && 'resolved' in prediction\<close>;
  every \<open>Prediction\<close> carries the key \<open>resolved\<close> (it is a required field, written as
  \<open>null\<close> when the bet is placed), so the second conjunct is true.
\<close>

definition creditOne :: "Prediction \<Rightarrow> real \<times> real \<Rightarrow> real \<times> real" where
  "creditOne prediction acc =
     (if status prediction = Won
      then (let winnings = betAmount prediction * odds prediction
            in (fst acc + winnings, snd acc + js_floor (winnings * (1 / 10))))
      else acc)"

definition resolvePredictions ::
  "real \<Rightarrow> (nat \<Rightarrow> real) \<Rightarrow> nat \<Rightarrow> UserPortfolio \<Rightarrow> RedditPost list \<Rightarrow> UserPortfolio \<times> nat" where
  "resolvePredictions now rnd c portfolio redditPosts =
     (let r = resolveEach now rnd redditPosts (predictions portfolio) c;
          updatedPredictions = fst r;
          acc = fold creditOne updatedPredictions (memeCoins portfolio, experience portfolio)
      in (portfolio \<lparr> predictions := updatedPredictions,
                       memeCoins := fst acc,
                       experience := snd acc,
                       level := li_level (calculateLevel (snd acc)) \<rparr>,
          snd r))"

subsection \<open>Placing a bet (\<open>PostCard.handleBet\<close>, \<open>MarketView.handlePlaceBet\<close>)\<close>

record GameState =
  gs_currentSector :: "MarketSector option"
  gs_marketData :: "(string \<times> MarketData) list"
  userPortfolio :: UserPortfolio
  trendingPosts :: "RedditPost list"
  isMarketOpen :: bool
  nextCrashTime :: "real option"

text \<open>\<open>Omit<Prediction, 'id' | 'userId' | 'status' | 'created' | 'resolved'>\<close>\<close>

record PredictionData =
  pd_postId :: string
  pd_postUrl :: string
  pd_postTitle :: string
  pd_predictionType :: string
  pd_targetValue :: real
  pd_timeframe :: string
  pd_betAmount :: real
  pd_odds :: real
  pd_baselineValue :: real
  pd_volatilityFactor :: real
  pd_marketConditions :: MarketConditions

text \<open>
  What a handler did: returned without a word, showed an \<open>alert\<close> and returned, or
  updated the game state.
\<close>

datatype bet_outcome = NoAction | Alert string | BetPlaced

definition handlePlaceBet ::
  "real \<Rightarrow> string \<Rightarrow> PredictionData \<Rightarrow> GameState \<Rightarrow> bet_outcome \<times> GameState" where
  "handlePlaceBet now newId predictionData gameState =
     (if pd_betAmount predictionData > memeCoins (userPortfolio gameState)
      then (Alert ''Insufficient MemeCoins!'', gameState)
      else case find (\<lambda>p. post_id p = pd_postId predictionData) (trendingPosts gameState) of
        None \<Rightarrow> (Alert ''Post data not found!'', gameState)
      | Some post \<Rightarrow>
          (let prediction =
                 \<lparr> pred_id = newId,
                   pred_userId = userId (userPortfolio gameState),
                   pred_postId = pd_postId predictionData,
                   pred_postUrl = post_url post,
                   pred_postTitle = post_title post,
                   predictionType = pd_predictionType predictionData,
                   targetValue = pd_targetValue predictionData,
                   timeframe = pd_timeframe predictionData,
                   betAmount = pd_betAmount predictionData,
                   odds = pd_odds predictionData,
                   status = Active,
                   pred_created = now,
                   resolved = None,
                   baselineValue = pd_baselineValue predictionData,
                   volatilityFactor = pd_volatilityFactor predictionData,
                   marketConditions = pd_marketConditions predictionData \<rparr>;
               experienceGained = js_floor (pd_betAmount predictionData * (5 / 100));
               newExperience = experience (userPortfolio gameState) + experienceGained;
               updatedPortfolio = (userPortfolio gameState)
                 \<lparr> memeCoins :=
                     memeCoins (userPortfolio gameState) - pd_betAmount predictionData,
                   predictions := predictions (userPortfolio gameState) @ [prediction],
                   experience := newExperience,
                   level := li_level (calculateLevel newExperience) \<rparr>
           in (BetPlaced, gameState\<lparr>userPortfolio := updatedPortfolio\<rparr>)))"

text \<open>
  The prediction type of the form is the value of a \<open>select\<close> element whose options are
  the \<open>id\<close> fields of \<open>PREDICTION_TYPES\<close>; the initial value is \<open>growth_rate\<close>.
\<close>

datatype form_type = GrowthRate | MilestoneReach | RankingPosition | EngagementRatio | ViralityIndex

fun type_id :: "form_type \<Rightarrow> string" where
  "type_id GrowthRate = ''growth_rate''"
| "type_id MilestoneReach = ''milestone_reach''"
| "type_id RankingPosition = ''ranking_position''"
| "type_id EngagementRatio = ''engagement_ratio''"
| "type_id ViralityIndex = ''virality_index''"

text \<open>
  The odds are stored in the prediction as a finite number. For each of the five ids
  \<open>calculateOdds\<close> returns the finite number 2 (lemma \<open>calculateOdds_form_type\<close> below), so
  only the first equation is ever used.
\<close>

fun js_finite :: "jsnum \<Rightarrow> real" where
  "js_finite (Fin r) = r"
| "js_finite _ = 0"

text \<open>
  \<open>handleBet\<close> in the card of one post. The props \<open>onPlaceBet\<close> and \<open>userPortfolio\<close> are
  those that \<open>MarketView\<close> passes: \<open>handlePlaceBet\<close> and the portfolio of the game state;
  \<open>marketData\<close> may be \<open>null\<close>. The bet amount, prediction type, target and timeframe are
  the state of the form.
\<close>

definition handleBet ::
  "real \<Rightarrow> nat \<Rightarrow> string \<Rightarrow> RedditPost \<Rightarrow> MarketData option \<Rightarrow> real \<Rightarrow> form_type \<Rightarrow> real
     \<Rightarrow> string \<Rightarrow> GameState \<Rightarrow> bet_outcome \<times> GameState" where
  "handleBet now hour newId post marketData amount ftype target tf gameState =
     (case marketData of
        None \<Rightarrow> (NoAction, gameState)
      | Some md \<Rightarrow>
          if amount < MIN_BET_AMOUNT then (Alert ''Minimum bet is 10 MemeCoins'', gameState)
          else if amount > MAX_BET_AMOUNT
            then (Alert ''Maximum bet is 1000 MemeCoins'', gameState)
          else if amount > memeCoins (userPortfolio gameState)
            then (Alert ''Insufficient MemeCoins balance'', gameState)
          else
            (let ptype = type_id ftype;
                 prediction =
                   \<lparr> pd_postId = post_id post,
                     pd_postUrl = post_url post,
                     pd_postTitle = post_title post,
                     pd_predictionType = ptype,
                     pd_targetValue = target,
                     pd_timeframe = tf,
                     pd_betAmount = amount,
                     pd_odds = js_finite (calculateOdds now hour post md ptype target tf),
                     pd_baselineValue =
                       (if ptype = ''growth_rate'' then post_score post
                        else if ptype = ''milestone_reach'' then post_score post
                        else if ptype = ''engagement_ratio''
                          then post_commentCount post / max 1 (post_score post)
                        else if ptype = ''virality_index''
                          then (post_score post + post_commentCount post * 2)
                                 / max 1 (hoursOld now post)
                        else post_score post),
                     pd_volatilityFactor = 1,
                     pd_marketConditions =
                       \<lparr> mc_postAge = hoursOld now post,
                         mc_currentRanking = js_or (ranking md) 50,
                         mc_subredditMultiplier = 1,
                         mc_timeOfDay = currentTimeOfDay hour \<rparr> \<rparr>
             in handlePlaceBet now newId prediction gameState))"

subsection \<open>Staking (\<open>StakingService\<close>)\<close>

definition getStakingTier :: "real \<Rightarrow> StakingTier" where
  "getStakingTier amount =
     (case find (\<lambda>tier. amount \<ge> minAmount tier \<and> jle (Fin amount) (maxAmount tier))
             STAKING_TIERS of
        Some tier \<Rightarrow> tier
      | None \<Rightarrow> bronze)"

definition calculateStakingRewards :: "real \<Rightarrow> UserPortfolio \<Rightarrow> real" where
  "calculateStakingRewards now portfolio =
     (let tier = getStakingTier (stakedCoins portfolio);
          timeSinceLastClaim = now - lastStakingClaim portfolio;
          hoursSinceLastClaim = timeSinceLastClaim / (1000 * 60 * 60);
          dailyRate = apr tier / 100 / 365;
          dailyReward = stakedCoins portfolio * dailyRate;
          reward = dailyReward * (hoursSinceLastClaim / 24)
      in max 0 (js_floor reward))"

definition canClaimRewards :: "real \<Rightarrow> UserPortfolio \<Rightarrow> bool" where
  "canClaimRewards now portfolio = (now - lastStakingClaim portfolio \<ge> STAKING_CLAIM_INTERVAL)"

definition claimRewards :: "real \<Rightarrow> UserPortfolio \<Rightarrow> UserPortfolio" where
  "claimRewards now portfolio =
     (let rewards = calculateStakingRewards now portfolio
      in portfolio \<lparr> memeCoins := memeCoins portfolio + rewards,
                      stakingRewards := stakingRewards portfolio + rewards,
                      lastStakingClaim := now \<rparr>)"

definition stakeCoins :: "real \<Rightarrow> UserPortfolio \<Rightarrow> real \<Rightarrow> js_error + UserPortfolio" where
  "stakeCoins now portfolio amount =
     (if amount > memeCoins portfolio then Inl (Error ''Insufficient MemeCoins to stake'')
      else Inr (portfolio \<lparr> memeCoins := memeCoins portfolio - amount,
                             stakedCoins := stakedCoins portfolio + amount,
                             lastStakingClaim := now \<rparr>))"

definition unstakeCoins :: "real \<Rightarrow> UserPortfolio \<Rightarrow> real \<Rightarrow> js_error + UserPortfolio" where
  "unstakeCoins now portfolio amount =
     (if amount > stakedCoins portfolio then Inl (Error ''Insufficient staked coins'')
      else (let updatedPortfolio = claimRewards now portfolio
            in Inr (updatedPortfolio
                      \<lparr> stakedCoins := stakedCoins updatedPortfolio - amount,
                        memeCoins := memeCoins updatedPortfolio + amount \<rparr>)))"

subsection \<open>Tournaments (\<open>TournamentService\<close>)\<close>

text \<open>
  The service state is the array \<open>tournaments\<close>. A tournament found by
  \<open>tournaments.find\<close> is mutated in place: \<open>updateTournament\<close> rewrites the first
  tournament with the given id.
\<close>

fun updateTournament :: "string \<Rightarrow> Tournament \<Rightarrow> Tournament list \<Rightarrow> Tournament list" where
  "updateTournament tid t' [] = []"
| "updateTournament tid t' (t # ts) =
     (if t_id t = tid then t' # ts else t # updateTournament tid t' ts)"

fun updateParticipant ::
  "string \<Rightarrow> (TournamentParticipant \<Rightarrow> TournamentParticipant) \<Rightarrow> TournamentParticipant list
     \<Rightarrow> TournamentParticipant list" where
  "updateParticipant uid f [] = []"
| "updateParticipant uid f (q # qs) =
     (if tp_userId q = uid then f q # qs else q # updateParticipant uid f qs)"

text \<open>\<open>newId\<close> is the generated id \<open>tournament_<time>_<random>\<close>.\<close>

definition createTournament ::
  "string \<Rightarrow> string \<Rightarrow> string \<Rightarrow> real \<Rightarrow> Tournament list \<Rightarrow> Tournament \<times> Tournament list" where
  "createTournament newId name description start ts =
     (let tournament =
            \<lparr> t_id = newId,
              t_name = name,
              t_description = description,
              startDate = start,
              endDate = start + DURATION_HOURS * 60 * 60 * 1000,
              prizePool = 0,
              entryFee = ENTRY_FEE,
              maxParticipants = MAX_PARTICIPANTS,
              currentParticipants = 0,
              t_status = TUpcoming,
              rules = [''Entry fee: 100 MemeCoins'', ''Duration: 24 hours'',
                       ''Points per win: 10'', ''Points per loss: -2'',
                       ''Consecutive win bonus: 1.5x''],
              leaderboard = [] \<rparr>
      in (tournament, ts @ [tournament]))"

datatype join_result = JoinFailed string | Joined Tournament UserPortfolio

definition joinTournament ::
  "string \<Rightarrow> UserPortfolio \<Rightarrow> Tournament list \<Rightarrow> join_result \<times> Tournament list" where
  "joinTournament tournamentId portfolio ts =
     (case find (\<lambda>t. t_id t = tournamentId) ts of
        None \<Rightarrow> (JoinFailed ''Tournament not found'', ts)
      | Some tournament \<Rightarrow>
          if t_status tournament \<noteq> TUpcoming
            then (JoinFailed ''Tournament has already started'', ts)
          else if currentParticipants tournament \<ge> maxParticipants tournament
            then (JoinFailed ''Tournament is full'', ts)
          else if memeCoins portfolio < entryFee tournament
            then (JoinFailed ''Insufficient MemeCoins for entry fee'', ts)
          else case find (\<lambda>p. tp_userId p = userId portfolio) (leaderboard tournament) of
            Some existingParticipant \<Rightarrow>
              (JoinFailed ''Already participating in this tournament'', ts)
          | None \<Rightarrow>
              (let participant =
                     \<lparr> tp_userId = userId portfolio,
                       tp_username =
                         ''Player_'' @ drop (length (userId portfolio) - 4) (userId portfolio),
                       points = 0,
                       rank = length (leaderboard tournament) + 1,
                       tp_predictions = 0,
                       winRate = 0 \<rparr>;
                   tournament' = tournament
                     \<lparr> leaderboard := leaderboard tournament @ [participant],
                       currentParticipants := currentParticipants tournament + 1,
                       prizePool := prizePool tournament + entryFee tournament \<rparr>;
                   updatedPortfolio = portfolio
                     \<lparr> memeCoins := memeCoins portfolio - entryFee tournament,
                       currentTournament := Some tournamentId,
                       tournamentPoints := 0 \<rparr>
               in (Joined tournament' updatedPortfolio,
                   updateTournament tournamentId tournament' ts)))"

text \<open>\<open>leaderboard.sort((a, b) => b.points - a.points)\<close>: stable, highest points first.\<close>

definition sortLeaderboard :: "TournamentParticipant list \<Rightarrow> TournamentParticipant list" where
  "sortLeaderboard lb = sort_key (\<lambda>p. - points p) lb"

definition assignRanks :: "TournamentParticipant list \<Rightarrow> TournamentParticipant list" where
  "assignRanks lb = map (\<lambda>ip. (snd ip)\<lparr>rank := fst ip + 1\<rparr>) (enumerate 0 lb)"

definition updateTournamentPoints ::
  "string \<Rightarrow> string \<Rightarrow> bool \<Rightarrow> real \<Rightarrow> Tournament list \<Rightarrow> Tournament list" where
  "updateTournamentPoints tournamentId uid won consecutiveWins ts =
     (case find (\<lambda>t. t_id t = tournamentId) ts of
        None \<Rightarrow> ts
      | Some tournament \<Rightarrow>
          if t_status tournament \<noteq> TActive then ts
          else case find (\<lambda>p. tp_userId p = uid) (leaderboard tournament) of
            None \<Rightarrow> ts
          | Some participant \<Rightarrow>
              (let basePoints = (if won then POINTS_PER_WIN else POINTS_PER_LOSS);
                   bonusMultiplier =
                     (if won \<and> consecutiveWins > 1 then BONUS_MULTIPLIER else 1);
                   pointsToAdd = js_floor (basePoints * bonusMultiplier);
                   lb1 = updateParticipant uid
                           (\<lambda>q. q\<lparr>points := points q + pointsToAdd,
                                  tp_predictions := tp_predictions q + 1\<rparr>)
                           (leaderboard tournament);
                   totalWins = length (filter (\<lambda>q. points q > 0) lb1);
                   lb2 = updateParticipant uid
                           (\<lambda>q. q\<lparr>winRate :=
                                    (if tp_predictions q > 0
                                     then real totalWins / real (tp_predictions q) * 100
                                     else 0)\<rparr>)
                           lb1
               in updateTournament tournamentId
                    (tournament\<lparr>leaderboard := assignRanks (sortLeaderboard lb2)\<rparr>) ts))"

definition startTournament :: "string \<Rightarrow> Tournament list \<Rightarrow> bool \<times> Tournament list" where
  "startTournament tournamentId ts =
     (case find (\<lambda>t. t_id t = tournamentId) ts of
        None \<Rightarrow> (False, ts)
      | Some tournament \<Rightarrow>
          if t_status tournament \<noteq> TUpcoming then (False, ts)
          else (True, updateTournament tournamentId (tournament\<lparr>t_status := TActive\<rparr>) ts))"

record EndResult =
  winners :: "TournamentParticipant list"
  prizes :: "real list"

definition endTournament :: "real \<Rightarrow> string \<Rightarrow> Tournament list \<Rightarrow> EndResult \<times> Tournament list" where
  "endTournament now tournamentId ts =
     (case find (\<lambda>t. t_id t = tournamentId) ts of
        None \<Rightarrow> (\<lparr>winners = [], prizes = []\<rparr>, ts)
      | Some tournament \<Rightarrow>
          if t_status tournament \<noteq> TActive then (\<lparr>winners = [], prizes = []\<rparr>, ts)
          else
            (let sorted = sortLeaderboard (leaderboard tournament);
                 tournament' = tournament
                   \<lparr> t_status := TCompleted, endDate := now, leaderboard := sorted \<rparr>;
                 ps = map (\<lambda>ratio. js_floor (prizePool tournament * ratio)) PRIZE_DISTRIBUTION;
                 ws = take (length ps) sorted
             in (\<lparr>winners = ws, prizes = ps\<rparr>,
                 updateTournament tournamentId tournament' ts)))"

subsection \<open>Example data\<close>

definition example_conditions :: MarketConditions where
  "example_conditions =
     \<lparr>mc_postAge = 2, mc_currentRanking = 50, mc_subredditMultiplier = 1,
      mc_timeOfDay = Normal\<rparr>"

definition example_portfolio :: UserPortfolio where
  "example_portfolio = \<lparr> userId = ''user_alice'', memeCoins = 1000, totalValue = 1000,
     predictions = [], achievements = [], level = 1, experience = 0, stakedCoins = 0,
     stakingRewards = 0, lastStakingClaim = 0, tournamentPoints = 0,
     currentTournament = None, alertsEnabled = True, favoriteSubreddits = [],
     winStreak = 0, lossStreak = 0, bestWin = 0, perfectDays = 0 \<rparr>"

definition example_player :: "string \<Rightarrow> real \<Rightarrow> TournamentParticipant" where
  "example_player u pts = \<lparr> tp_userId = u, tp_username = ''Player_'' @ u, points = pts,
     rank = 1, tp_predictions = 0, winRate = 0 \<rparr>"

text \<open>An active tournament with five participants and a prize pool of 550.\<close>

definition example_tournament :: Tournament where
  "example_tournament = \<lparr> t_id = ''t1'', t_name = ''Daily Meme Masters'',
     t_description = ''Compete for the best meme predictions in 24 hours!'', startDate = 0,
     endDate = 86400000, prizePool = 550, entryFee = 100, maxParticipants = 100,
     currentParticipants = 5, t_status = TActive, rules = [],
     leaderboard = [example_player ''a'' 8, example_player ''b'' 30, example_player ''c'' (- 2),
                    example_player ''d'' 15, example_player ''e'' 10] \<rparr>"

text \<open>A tournament as \<open>createTournament\<close> makes it, and the same after Alice joined.\<close>

definition example_upcoming :: Tournament where
  "example_upcoming = fst (createTournament ''t0'' ''Weekend Champion''
     ''Longer tournament with bigger prizes!'' 86400000 [])"

definition example_joined :: Tournament where
  "example_joined = example_upcoming
     \<lparr> leaderboard :=
         [\<lparr> tp_userId = ''user_alice'', tp_username = ''Player_lice'', points = 0, rank = 1,
            tp_predictions = 0, winRate = 0 \<rparr>],
       currentParticipants := 1,
       prizePool := 100 \<rparr>"

definition example_alice_joined :: UserPortfolio where
  "example_alice_joined = example_portfolio
     \<lparr> memeCoins := 900, currentTournament := Some ''t0'', tournamentPoints := 0 \<rparr>"

text \<open>
  A resolved prediction; the fields that the streak scan reads are the status and the
  creation time.
\<close>

definition example_resolved :: "string \<Rightarrow> prediction_status \<Rightarrow> real \<Rightarrow> Prediction" where
  "example_resolved pid s t =
     \<lparr> pred_id = pid, pred_userId = ''user_alice'', pred_postId = ''post1'',
       pred_postUrl = ''https://reddit.com/r/memes/post1'', pred_postTitle = ''A meme'',
       predictionType = ''milestone_reach'', targetValue = 100, timeframe = ''LONG'',
       betAmount = 10, odds = 2, status = s, pred_created = t, resolved = Some (t + 1),
       baselineValue = 50, volatilityFactor = 1, marketConditions = example_conditions \<rparr>"

text \<open>Alice lost her first prediction (created at time 1) and won her second (at time 2).\<close>

definition streak_portfolio :: UserPortfolio where
  "streak_portfolio = example_portfolio
     \<lparr> predictions := [example_resolved ''pred_1'' Lost 1, example_resolved ''pred_2'' Won 2] \<rparr>"

text \<open>
  A post from r/memes with 1300 upvotes, created at second 1699990000, and its quote.
\<close>

definition example_post :: RedditPost where
  "example_post = \<lparr> post_id = ''post1'', post_title = ''A meme'', post_author = ''bob'',
     post_subreddit = ''memes'', post_score = 1300, post_commentCount = 50,
     post_created = 1699990000, post_url = ''https://reddit.com/r/memes/post1'',
     post_thumbnail = None, post_selftext = None, post_isIPO = None \<rparr>"

definition example_quote :: MarketData where
  "example_quote = \<lparr> md_postId = ''post1'', currentPrice = Fin (15 / 10),
     previousPrice = Fin (15 / 10),
     volume = 500, changePercent = Fin 0, lastUpdated = 1700000000000, md_trend = Stable,
     ranking = None \<rparr>"

text \<open>
  An active \<open>milestone_reach\<close> bet of 10 coins at odds 2 on that post, placed at
  millisecond 1700000000000 with timeframe \<open>LONG\<close>: it is due 24 hours later.
\<close>

definition example_bet :: "string \<Rightarrow> real \<Rightarrow> Prediction" where
  "example_bet pid target =
     \<lparr> pred_id = pid, pred_userId = ''user_alice'', pred_postId = ''post1'',
       pred_postUrl = ''https://reddit.com/r/memes/post1'', pred_postTitle = ''A meme'',
       predictionType = ''milestone_reach'', targetValue = target, timeframe = ''LONG'',
       betAmount = 10, odds = 2, status = Active, pred_created = 1700000000000,
       resolved = None, baselineValue = 1300, volatilityFactor = 1,
       marketConditions = example_conditions \<rparr>"

text \<open>Alice after two such bets: one with a target below the score, one far above it.\<close>

definition fresh_portfolio :: UserPortfolio where
  "fresh_portfolio = example_portfolio
     \<lparr> memeCoins := 980,
       predictions := [example_bet ''pred_hit'' 1000, example_bet ''pred_miss'' 5000] \<rparr>"

text \<open>A random source that always draws the midpoint.\<close>

definition half :: "nat \<Rightarrow> real" where
  "half k = 1 / 2"

text \<open>The portfolio after one resolution pass, one minute after the bets were placed.\<close>

definition once_resolved :: UserPortfolio where
  "once_resolved = fst (resolvePredictions 1700000060000 half 0 fresh_portfolio [example_post])"

text \<open>
  The growth-rate scenario: baseline 100, timeframe \<open>LONG\<close>, target 50 upvotes per hour.
\<close>

definition example_growth_bet :: Prediction where
  "example_growth_bet =
     \<lparr> pred_id = ''pred_growth'', pred_userId = ''user_alice'', pred_postId = ''post1'',
       pred_postUrl = ''https://reddit.com/r/memes/post1'', pred_postTitle = ''A meme'',
       predictionType = ''growth_rate'', targetValue = 50, timeframe = ''LONG'',
       betAmount = 10, odds = 2, status = Active, pred_created = 1700000000000,
       resolved = None, baselineValue = 100, volatilityFactor = 1,
       marketConditions = example_conditions \<rparr>"

text \<open>
  The scenario at its deadline, for a post that was 14 hours old when the bet was
  placed: the post with its creation time in seconds, as the engines read it, and in
  milliseconds, as the content provider delivers it.
\<close>

definition growth_post_s :: RedditPost where
  "growth_post_s = example_post \<lparr> post_created := 1699949600 \<rparr>"

definition growth_post_ms :: RedditPost where
  "growth_post_ms = example_post \<lparr> post_created := 1699949600000 \<rparr>"

definition growth_portfolio :: UserPortfolio where
  "growth_portfolio = example_portfolio
     \<lparr> memeCoins := 990, predictions := [example_growth_bet] \<rparr>"

text \<open>A post from the subreddit r/constructor.\<close>

definition constructor_post :: RedditPost where
  "constructor_post = example_post \<lparr> post_id := ''post2'', post_subreddit := ''constructor'' \<rparr>"

definition cats :: MarketSector where
  "cats = \<lparr> sec_id = ''cats'', sec_name = ''Cat Memes'',
     sec_description = ''Everything feline and adorable'', sec_emoji = ''cat'',
     activeUntil = 1700086400000, multiplier = 12 / 10,
     sec_keywords = [''cat'', ''kitten'', ''feline'', ''meow''] \<rparr>"

text \<open>An engine that tracks one quote, priced at the floor.\<close>

definition floor_quote :: MarketData where
  "floor_quote = \<lparr> md_postId = ''post0'', currentPrice = Fin (1 / 100),
     previousPrice = Fin (2 / 100),
     volume = 500, changePercent = Fin (- 50), lastUpdated = 1700000000000, md_trend = Down,
     ranking = None \<rparr>"

definition example_engine :: MarketEngine where
  "example_engine = \<lparr> me_marketData = [(''post0'', floor_quote)], me_sectors = [cats],
     me_currentSector = Some cats \<rparr>"

definition example_ops :: "market_op list" where
  "example_ops =
     [TriggerMarketEvent 1700000030000 ''1700000030000'' Crash,
      InitializePostMarket 1700000040000 example_post,
      Tick 1700000060000,
      TriggerMarketEvent 1700000090000 ''1700000090000'' Boom,
      Tick 1700000120000]"

definition constructor_ops :: "market_op list" where
  "constructor_ops =
     [InitializePostMarket 1700000040000 constructor_post,
      Tick 1700000060000,
      TriggerMarketEvent 1700000090000 ''1700000090000'' Crash]"

definition example_game :: GameState where
  "example_game = \<lparr> gs_currentSector = Some cats, gs_marketData = [(''post1'', example_quote)],
     userPortfolio = example_portfolio, trendingPosts = [example_post], isMarketOpen = True,
     nextCrashTime = None \<rparr>"

section \<open>Properties\<close>

subsection \<open>Auxiliary facts\<close>

lemma js_floor_le: "js_floor x \<le> x"
  unfolding js_floor_def by (rule of_int_floor_le)

lemma find_updateTournament:
  "find (\<lambda>t. t_id t = tid) ts = Some t \<Longrightarrow> t_id t' = tid
     \<Longrightarrow> find (\<lambda>t. t_id t = tid) (updateTournament tid t' ts) = Some t'"
  by (induction ts) (auto split: if_splits)

lemma find_tournament_id: "find (\<lambda>t. t_id t = tid) ts = Some t \<Longrightarrow> t_id t = tid"
  by (induction ts) (auto split: if_splits)

lemma find_participant_appended:
  "tp_userId q = u \<Longrightarrow> find (\<lambda>p. tp_userId p = u) (lb @ [q]) \<noteq> None"
  by (induction lb) auto

lemma joinTournament_failed_unchanged:
  "joinTournament tid p ts = (JoinFailed msg, ts') \<Longrightarrow> ts' = ts"
  by (auto simp: joinTournament_def Let_def split: option.splits if_splits)

lemma length_PRIZE_DISTRIBUTION: "length PRIZE_DISTRIBUTION = 4"
  by (simp add: PRIZE_DISTRIBUTION_def)

lemma sum_prizes: "sum_list (map (\<lambda>ratio. js_floor (P * ratio)) PRIZE_DISTRIBUTION) \<le> P"
proof -
  have "js_floor (P * (5 / 10)) + js_floor (P * (25 / 100)) + js_floor (P * (15 / 100))
          + js_floor (P * (1 / 10))
        \<le> P * (5 / 10) + P * (25 / 100) + P * (15 / 100) + P * (1 / 10)"
    by (intro add_mono js_floor_le)
  also have "\<dots> = P" by (simp add: algebra_simps)
  finally show ?thesis by (simp add: PRIZE_DISTRIBUTION_def)
qed

lemma sorted_sortLeaderboard: "sorted (map (\<lambda>p. - points p) (sortLeaderboard lb))"
  by (simp add: sortLeaderboard_def)

lemma mset_sortLeaderboard: "mset (sortLeaderboard lb) = mset lb"
  by (simp add: sortLeaderboard_def)

lemma sortLeaderboard_top:
  assumes "w \<in> set (take n (sortLeaderboard lb))" "l \<in> set (drop n (sortLeaderboard lb))"
  shows "points l \<le> points w"
proof -
  have "sorted (map (\<lambda>p. - points p)
          (take n (sortLeaderboard lb) @ drop n (sortLeaderboard lb)))"
    using sorted_sortLeaderboard[of lb] by simp
  then have "\<forall>x \<in> set (take n (sortLeaderboard lb)).
               \<forall>y \<in> set (drop n (sortLeaderboard lb)). - points x \<le> - points y"
    unfolding map_append sorted_append by auto
  with assms show ?thesis by auto
qed

lemma second_claim_is_zero: "calculateStakingRewards now (claimRewards now p) = 0"
  by (simp add: calculateStakingRewards_def claimRewards_def js_floor_def Let_def)

subsection \<open>Staking\<close>

text \<open>
  Claim C7 (staking, no double count). For every portfolio, a claim followed by a second
  claim at the same clock reading yields the reward 0 on the second call, and the second
  call leaves the balance and the cumulative staking-rewards counter as the first call
  left them.
\<close>

theorem claimRewards_twice_no_double_count:
  "calculateStakingRewards now (claimRewards now p) = 0
   \<and> memeCoins (claimRewards now (claimRewards now p)) = memeCoins (claimRewards now p)
   \<and> stakingRewards (claimRewards now (claimRewards now p))
       = stakingRewards (claimRewards now p)"
  using second_claim_is_zero[of now p]
  by (simp add: claimRewards_def[of now "claimRewards now p"] Let_def)

subsection \<open>Tournaments\<close>

text \<open>
  Claim C8 (tournament uniqueness, atomic join). When a user has joined a tournament, a
  second call of \<open>joinTournament\<close> for the same tournament with a portfolio of the same
  \<open>userId\<close> returns an error, and the failed call returns the service state it was given:
  the leaderboard, \<open>currentParticipants\<close> and \<open>prizePool\<close> of the tournament are
  untouched, and no updated portfolio is produced, so the caller keeps the portfolio it
  passed.
\<close>

theorem joinTournament_twice_rejected:
  assumes first: "joinTournament tid p ts = (Joined t1 p1, ts1)"
    and same: "userId p2 = userId p"
  shows "\<exists>msg. joinTournament tid p2 ts1 = (JoinFailed msg, ts1)"
proof -
  from first obtain t where found: "find (\<lambda>t. t_id t = tid) ts = Some t"
    by (auto simp: joinTournament_def split: option.splits)
  from first found have
    t1: "t1 = t\<lparr> leaderboard := leaderboard t @
            [\<lparr> tp_userId = userId p,
               tp_username = ''Player_'' @ drop (length (userId p) - 4) (userId p),
               points = 0, rank = length (leaderboard t) + 1, tp_predictions = 0,
               winRate = 0 \<rparr>],
          currentParticipants := currentParticipants t + 1,
          prizePool := prizePool t + entryFee t \<rparr>"
    and ts1: "ts1 = updateTournament tid t1 ts"
    by (auto simp: joinTournament_def Let_def split: option.splits if_splits)
  have id1: "t_id t1 = tid"
    using t1 find_tournament_id[OF found] by simp
  have found1: "find (\<lambda>t. t_id t = tid) ts1 = Some t1"
    unfolding ts1 by (rule find_updateTournament[OF found id1])
  have "find (\<lambda>q. tp_userId q = userId p2) (leaderboard t1) \<noteq> None"
    unfolding t1 using same by (simp add: find_participant_appended)
  then obtain q where "find (\<lambda>q. tp_userId q = userId p2) (leaderboard t1) = Some q"
    by auto
  with found1 show ?thesis
    by (simp add: joinTournament_def)
qed

theorem joinTournament_twice_rejected_witness:
  "joinTournament ''t0'' example_portfolio [example_upcoming]
     = (Joined example_joined example_alice_joined, [example_joined])
   \<and> userId example_alice_joined = userId example_portfolio
   \<and> (\<exists>msg. joinTournament ''t0'' example_alice_joined [example_joined]
              = (JoinFailed msg, [example_joined]))"
proof -
  have first: "joinTournament ''t0'' example_portfolio [example_upcoming]
                 = (Joined example_joined example_alice_joined, [example_joined])"
    by (simp add: joinTournament_def example_portfolio_def example_upcoming_def
        example_joined_def example_alice_joined_def createTournament_def ENTRY_FEE_def
        MAX_PARTICIPANTS_def DURATION_HOURS_def Let_def)
  have same: "userId example_alice_joined = userId example_portfolio"
    by (simp add: example_alice_joined_def)
  from joinTournament_twice_rejected[OF first same] first same show ?thesis
    by simp
qed

text \<open>
  Claim C10 (prizes and winners). When a tournament is ended from the active state, the
  prizes are \<open>floor (prizePool * fraction)\<close> over the fractions 0.5, 0.25, 0.15 and 0.1, their
  sum does not exceed the prize pool, and the winners are the first four entries (all of
  them when there are fewer) of the leaderboard sorted by points, highest first: the
  sorted leaderboard is a rearrangement of the leaderboard and no entry behind the
  winners has more points than a winner. The tournament is then completed.
\<close>

theorem endTournament_prizes_and_winners:
  assumes found: "find (\<lambda>t. t_id t = tid) ts = Some t"
    and active: "t_status t = TActive"
  shows "prizes (fst (endTournament now tid ts))
           = map (\<lambda>fraction. js_floor (prizePool t * fraction))
               [5 / 10, 25 / 100, 15 / 100, 1 / 10]
       \<and> sum_list (prizes (fst (endTournament now tid ts))) \<le> prizePool t
       \<and> winners (fst (endTournament now tid ts)) = take 4 (sortLeaderboard (leaderboard t))
       \<and> length (winners (fst (endTournament now tid ts))) = min 4 (length (leaderboard t))
       \<and> mset (sortLeaderboard (leaderboard t)) = mset (leaderboard t)
       \<and> (\<forall>w \<in> set (take 4 (sortLeaderboard (leaderboard t))).
            \<forall>l \<in> set (drop 4 (sortLeaderboard (leaderboard t))). points l \<le> points w)
       \<and> map_option t_status (find (\<lambda>t. t_id t = tid) (snd (endTournament now tid ts)))
            = Some TCompleted"
proof -
  let ?t' = "t\<lparr>t_status := TCompleted, endDate := now,
               leaderboard := sortLeaderboard (leaderboard t)\<rparr>"
  have e: "endTournament now tid ts =
      (\<lparr>winners = take 4 (sortLeaderboard (leaderboard t)),
        prizes = map (\<lambda>ratio. js_floor (prizePool t * ratio)) PRIZE_DISTRIBUTION\<rparr>,
       updateTournament tid ?t' ts)"
    using found active by (simp add: endTournament_def Let_def length_PRIZE_DISTRIBUTION)
  have p: "prizes (fst (endTournament now tid ts))
           = map (\<lambda>fraction. js_floor (prizePool t * fraction))
               [5 / 10, 25 / 100, 15 / 100, 1 / 10]"
    unfolding e by (simp add: PRIZE_DISTRIBUTION_def)
  have s: "sum_list (prizes (fst (endTournament now tid ts))) \<le> prizePool t"
    unfolding e using sum_prizes[of "prizePool t"] by simp
  have w: "winners (fst (endTournament now tid ts)) = take 4 (sortLeaderboard (leaderboard t))"
    unfolding e by simp
  have l: "length (winners (fst (endTournament now tid ts))) = min 4 (length (leaderboard t))"
    unfolding w by (simp add: sortLeaderboard_def min.commute)
  have c: "map_option t_status (find (\<lambda>t. t_id t = tid) (snd (endTournament now tid ts)))
            = Some TCompleted"
    unfolding e using find_updateTournament[OF found, of ?t'] find_tournament_id[OF found]
    by simp
  from p s w l c mset_sortLeaderboard sortLeaderboard_top show ?thesis by blast
qed

theorem endTournament_prizes_and_winners_witness:
  "find (\<lambda>t. t_id t = ''t1'') [example_tournament] = Some example_tournament
   \<and> t_status example_tournament = TActive
   \<and> prizes (fst (endTournament 5 ''t1'' [example_tournament])) = [275, 137, 82, 55]
   \<and> sum_list (prizes (fst (endTournament 5 ''t1'' [example_tournament]))) \<le> 550
   \<and> map tp_userId (winners (fst (endTournament 5 ''t1'' [example_tournament])))
        = [''b'', ''d'', ''e'', ''a'']"
proof -
  have f: "find (\<lambda>t. t_id t = ''t1'') [example_tournament] = Some example_tournament"
    by (simp add: example_tournament_def)
  have a: "t_status example_tournament = TActive"
    by (simp add: example_tournament_def)
  have srt: "map tp_userId (take 4 (sortLeaderboard (leaderboard example_tournament)))
               = [''b'', ''d'', ''e'', ''a'']"
    by (simp add: example_tournament_def example_player_def sortLeaderboard_def)
  have fl: "map (\<lambda>fraction. js_floor (prizePool example_tournament * fraction))
              [5 / 10, 25 / 100, 15 / 100, 1 / 10] = [275, 137, 82, 55]"
    by (simp add: example_tournament_def js_floor_def)
  have pp: "prizePool example_tournament = 550"
    by (simp add: example_tournament_def)
  show ?thesis
    using endTournament_prizes_and_winners[OF f a, of 5] f a srt fl pp by simp
qed

subsection \<open>Streaks\<close>

text \<open>
  What the scan computes: after the loop \<open>tempWinStreak\<close> is the run of won predictions at
  the end of the scanned list, that is at its oldest end, and this is what is reported
  when the most recent prediction was won.
\<close>

lemma streak_loop_append:
  "streak_loop (ps @ qs) acc = streak_loop qs (streak_loop ps acc)"
  by (induction ps acc rule: streak_loop.induct) auto

lemma streak_loop_last:
  "fst (snd (snd (streak_loop [p] acc)))
     = (if status p = Won then fst (snd (snd acc)) + 1 else 0)"
  by (cases acc) auto

lemma streak_loop_tempWin:
  "fst (snd (snd (streak_loop ps (bestW, bestL, 0, tempL))))
     = length (takeWhile (\<lambda>p. status p = Won) (rev ps))"
  by (induction ps rule: rev_induct) (simp_all add: streak_loop_append streak_loop_last)

lemma currentWinStreak_is_oldest_run:
  "currentWinStreak (calculateStreaks portfolio)
     = (case completedPredictions portfolio of
          [] \<Rightarrow> 0
        | mostRecent # _ \<Rightarrow>
            if status mostRecent = Won
            then length (takeWhile (\<lambda>p. status p = Won)
                   (rev (completedPredictions portfolio)))
            else 0)"
proof -
  let ?cs = "completedPredictions portfolio"
  obtain a b x y where l: "streak_loop ?cs (0, 0, 0, 0) = (a, b, x, y)"
    by (metis prod_cases4)
  have x: "x = length (takeWhile (\<lambda>p. status p = Won) (rev ?cs))"
    using streak_loop_tempWin[of ?cs 0 0 0] l by simp
  show ?thesis
    using l x by (simp add: calculateStreaks_def Let_def split: list.splits)
qed

text \<open>
  Claim C9 (current streak). The claim is that the reported current win streak is the
  number of consecutive won predictions counted from the most recent resolved prediction
  backward. \<open>calculateStreaks\<close> scans the predictions most recent first and reports the
  running streak it holds at the end of the scan, which is the streak of the oldest
  predictions. For the portfolio whose older prediction was lost and whose newer one was
  won, the streak counted from the most recent prediction is 1 and the function reports 0.
\<close>

theorem calculateStreaks_reports_oldest_run:
  "map pred_id (completedPredictions streak_portfolio) = [''pred_2'', ''pred_1'']
   \<and> leading_run Won (completedPredictions streak_portfolio) = 1
   \<and> currentWinStreak (calculateStreaks streak_portfolio) = 0"
  by (simp add: calculateStreaks_def completedPredictions_def leading_run_def
      streak_portfolio_def example_portfolio_def example_resolved_def)

subsection \<open>Odds\<close>

lemma form_type_absent: "js_get PREDICTION_TYPES (type_id t) = Absent"
  by (cases t) (simp_all add: js_get_def PREDICTION_TYPES_def OBJECT_PROTOTYPE_KEYS_def)

lemma calculateOdds_form_type:
  "calculateOdds now hour post md (type_id t) target tf = Fin 2"
  by (simp add: calculateOdds_def form_type_absent)

lemma difficulty_of_table_key:
  "js_get PREDICTION_TYPES ptype = Own cfg
     \<Longrightarrow> calculateDifficultyMultiplier ptype post target conditions = Fin 1"
  by (auto simp: js_get_def PREDICTION_TYPES_def calculateDifficultyMultiplier_def
      split: if_splits)

lemma clamp_finite:
  "\<exists>r. jmax (Fin (11 / 10)) (jmin (Fin 50) (Fin a)) = Fin r \<and> 11 / 10 \<le> r \<and> r \<le> 50"
proof -
  have "jmax (Fin (11 / 10)) (jmin (Fin 50) (Fin a)) = Fin (max (11 / 10) (min 50 a))"
    by (simp add: max_def min_def)
  then show ?thesis by simp
qed

lemma own_factor_finite:
  "p \<noteq> Inherited \<Longrightarrow> \<exists>r. to_number (js_or_prop p d) = Fin r"
  by (cases p) simp_all

text \<open>
  Where neither the prediction type nor the subreddit names an inherited member, the odds
  are a finite number between 1.1 and 50.
\<close>

lemma calculateOdds_own_keys:
  assumes t: "js_get PREDICTION_TYPES ptype \<noteq> Inherited"
    and s: "js_get SUBREDDIT_MULTIPLIERS (post_subreddit post) \<noteq> Inherited"
  shows "\<exists>r. calculateOdds now hour post md ptype target tf = Fin r
             \<and> 11 / 10 \<le> r \<and> r \<le> 50"
proof (cases "js_get PREDICTION_TYPES ptype")
  case Absent
  then show ?thesis by (simp add: calculateOdds_def)
next
  case Inherited
  with t show ?thesis by simp
next
  case (Own cfg)
  from own_factor_finite[OF s, of 1] obtain m where
    m: "to_number (js_or_prop (js_get SUBREDDIT_MULTIPLIERS (post_subreddit post)) 1) = Fin m"
    by blast
  show ?thesis
    using clamp_finite
    by (simp add: calculateOdds_def Let_def Own m difficulty_of_table_key[OF Own])
qed

lemma calculateOdds_inherited_type:
  "js_get PREDICTION_TYPES ptype = Inherited
     \<Longrightarrow> calculateOdds now hour post md ptype target tf = NaN"
  by (simp add: calculateOdds_def Let_def)

lemma calculateOdds_inherited_subreddit:
  assumes "js_get PREDICTION_TYPES ptype = Own cfg"
    and "js_get SUBREDDIT_MULTIPLIERS (post_subreddit post) = Inherited"
  shows "calculateOdds now hour post md ptype target tf = NaN"
  using assms by (simp add: calculateOdds_def Let_def)

text \<open>
  A computed value: a virality bet on a one hour old post from r/memes, ranked third, at
  nine in the evening, with the short timeframe.
\<close>

lemma calculateOdds_example:
  "calculateOdds 1699993600000 21 example_post (example_quote\<lparr>ranking := Some 3\<rparr>)
     ''VIRALITY_INDEX'' 50 ''SHORT'' = Fin (8424 / 1000)"
  by (simp add: calculateOdds_def js_get_def PREDICTION_TYPES_def PREDICTION_TIMEFRAMES_def
      SUBREDDIT_MULTIPLIERS_def analyzeMarketConditions_def calculateVolatilityFactor_def
      calculateDifficultyMultiplier_def example_post_def example_quote_def hoursOld_def
      postAgeFactor_def rankingFactor_def currentTimeOfDay_def calculateGrowthRate_def Let_def)

text \<open>
  Claim C5 (odds bounds). The claim is that for every post, quote, prediction type,
  target value and timeframe \<open>calculateOdds\<close> returns a number in the closed interval
  from 1.1 to 50, and the default odds 2 for an unrecognized prediction type. The test
  for an unrecognized type is \<open>!PREDICTION_TYPES[predictionType]\<close>, and the lookup also
  finds the members every object inherits. For the prediction type \<open>constructor\<close>, which
  is not a prediction type, the test passes, \<open>baseOdds\<close> is \<open>undefined\<close> and the result
  is \<open>NaN\<close>, which the final \<open>Math.max(1.1, Math.min(50.0, baseOdds))\<close> returns as it
  is. The same happens for the recognized key \<open>GROWTH_RATE\<close> on a post of the subreddit
  \<open>constructor\<close>, whose multiplier is an inherited function.
\<close>

theorem calculateOdds_inherited_key_is_NaN:
  "js_get PREDICTION_TYPES ''constructor'' = Inherited
   \<and> calculateOdds 1700007200000 13 example_post example_quote ''constructor'' 50 ''LONG'' = NaN
   \<and> js_get PREDICTION_TYPES ''GROWTH_RATE''
       = Own \<lparr>ptc_id = ''growth_rate'', baseOdds = 2, timeBased = True,
              difficulty = ''medium''\<rparr>
   \<and> js_get SUBREDDIT_MULTIPLIERS (post_subreddit constructor_post) = Inherited
   \<and> calculateOdds 1700007200000 13 constructor_post example_quote ''GROWTH_RATE'' 50 ''LONG''
       = NaN"
proof -
  have k: "js_get PREDICTION_TYPES ''constructor'' = Inherited"
    by (simp add: js_get_def PREDICTION_TYPES_def OBJECT_PROTOTYPE_KEYS_def)
  have g: "js_get PREDICTION_TYPES ''GROWTH_RATE''
       = Own \<lparr>ptc_id = ''growth_rate'', baseOdds = 2, timeBased = True,
              difficulty = ''medium''\<rparr>"
    by (simp add: js_get_def PREDICTION_TYPES_def)
  have s: "js_get SUBREDDIT_MULTIPLIERS (post_subreddit constructor_post) = Inherited"
    by (simp add: js_get_def SUBREDDIT_MULTIPLIERS_def OBJECT_PROTOTYPE_KEYS_def
        constructor_post_def example_post_def)
  from k g s calculateOdds_inherited_type[OF k] calculateOdds_inherited_subreddit[OF g s]
  show ?thesis by simp
qed

subsection \<open>Verdicts of the prediction engine\<close>

lemma own_timeframe_hours:
  "js_get PREDICTION_TIMEFRAMES tf = Own cfg \<Longrightarrow> hours cfg \<in> {6, 12, 24, 48}"
  by (auto simp: js_get_def PREDICTION_TIMEFRAMES_def split: if_splits)

lemma resolvePrediction_before_deadline:
  assumes "js_get PREDICTION_TIMEFRAMES (timeframe p) = Own cfg"
    and "now < pred_created p + hours cfg * 60 * 60 * 1000"
  shows "resolvePrediction now p post md = Inr False"
  using assms by (simp add: resolvePrediction_def Let_def)

text \<open>
  The two verdicts for a \<open>growth_rate\<close> prediction. \<open>PredictionEngine.resolvePrediction\<close>,
  once the timeframe has passed, computes
  \<open>actual = (currentScore - baselineValue) / timeframeHours\<close> and returns won exactly when
  \<open>|actual - target| \<le> 0.1 * target\<close>. The switch inside
  \<open>MarketEngine.resolvePredictions\<close> computes \<open>actual = score / max(1, postAge)\<close> and
  reads neither the baseline nor the timeframe.
\<close>

lemma resolvePrediction_growth_rate:
  assumes tf: "js_get PREDICTION_TIMEFRAMES (timeframe p) = Own cfg"
    and due: "pred_created p + hours cfg * 60 * 60 * 1000 \<le> now"
    and ty: "predictionType p = ''growth_rate''"
  shows "resolvePrediction now p post md
           = Inr (\<bar>(post_score post - baselineValue p) / hours cfg - targetValue p\<bar>
                    \<le> targetValue p * (1 / 10))"
proof -
  have "hours cfg \<noteq> 0" using own_timeframe_hours[OF tf] by auto
  then show ?thesis
    using assms by (simp add: resolvePrediction_def Let_def not_less jsub_def)
qed

lemma resolveVerdict_growth_rate:
  "predictionType p = ''growth_rate''
     \<Longrightarrow> resolveVerdict now rnd c p post
           = (\<bar>post_score post / max 1 (hoursOld now post) - targetValue p\<bar>
                \<le> targetValue p * (1 / 10), c)"
  by (simp add: resolveVerdict_def Let_def)

text \<open>
  Claim C3 (growth rate). The claim is that a \<open>growth_rate\<close> prediction resolves by
  \<open>actual = (currentScore - baselineValue) / timeframeHours\<close> with a tolerance of a tenth
  of the target, so that baseline 100, timeframe \<open>LONG\<close>, target 50 and a score of 1300
  after 24 hours resolve to won. \<open>PredictionEngine.resolvePrediction\<close> does so: the actual
  rate is 50 and its verdict is won. The portfolio is resolved by
  \<open>MarketEngine.resolvePredictions\<close>, which does not call it: for a post that was 14
  hours old when the bet was placed, hence 38 hours old at the deadline, it computes
  1300 / 38, finds no win and marks the prediction lost; with the creation time in
  milliseconds it computes 1300 / 1 and marks the prediction lost as well.
\<close>

theorem resolvePredictions_growth_rate_diverges:
  "(post_score growth_post_s - baselineValue example_growth_bet) / 24 = 50
   \<and> resolvePrediction 1700086400000 example_growth_bet growth_post_s example_quote = Inr True
   \<and> hoursOld 1700086400000 growth_post_s = 38
   \<and> map status (predictions (fst (resolvePredictions 1700086400000 half 0 growth_portfolio
        [growth_post_s]))) = [Lost]
   \<and> resolvePrediction 1700086400000 example_growth_bet growth_post_ms example_quote = Inr True
   \<and> map status (predictions (fst (resolvePredictions 1700086400000 half 0 growth_portfolio
        [growth_post_ms]))) = [Lost]"
  by (simp add: resolvePrediction_def js_get_def PREDICTION_TIMEFRAMES_def jsub_def
      resolvePredictions_def resolveOne_def resolveVerdict_def creditOne_def
      growth_portfolio_def example_portfolio_def example_growth_bet_def growth_post_s_def
      growth_post_ms_def example_post_def hoursOld_def PREDICTION_EXPIRY_HOURS_def Let_def)

subsection \<open>Placing a bet\<close>

text \<open>A bet of the minimum amount goes through: debit, new active prediction, experience.\<close>

lemma handleBet_example:
  "fst (handleBet 1700000000000 13 ''pred_new'' example_post (Some example_quote) 10
          MilestoneReach 2000 ''LONG'' example_game) = BetPlaced
   \<and> memeCoins (userPortfolio (snd (handleBet 1700000000000 13 ''pred_new'' example_post
          (Some example_quote) 10 MilestoneReach 2000 ''LONG'' example_game))) = 990
   \<and> map (\<lambda>p. (pred_id p, predictionType p, status p, betAmount p, odds p))
        (predictions (userPortfolio (snd (handleBet 1700000000000 13 ''pred_new'' example_post
          (Some example_quote) 10 MilestoneReach 2000 ''LONG'' example_game))))
       = [(''pred_new'', ''milestone_reach'', Active, 10, 2)]"
  by (simp add: handleBet_def handlePlaceBet_def calculateOdds_def js_get_def
      PREDICTION_TYPES_def OBJECT_PROTOTYPE_KEYS_def example_game_def
      example_portfolio_def example_post_def
      MIN_BET_AMOUNT_def MAX_BET_AMOUNT_def Let_def)

text \<open>
  A bet of 9 on a post that has no quote: \<open>handleBet\<close> returns at its first line, before
  the validation, and shows no alert.
\<close>

theorem handleBet_no_quote_is_silent:
  "handleBet 1700000000000 13 ''pred_new'' example_post None (MIN_BET_AMOUNT - 1) GrowthRate 50
     ''LONG'' example_game = (NoAction, example_game)"
  by (simp add: handleBet_def)

text \<open>
  Claim C4 (bet validation), as amended. For every portfolio (every game state), a bet of
  \<open>MIN_BET_AMOUNT - 1\<close>, which is 9, is not placed and the game state, hence the portfolio
  with its balance, predictions and experience, is unchanged. On a post with a quote the
  bet is rejected with the validation alert; on a post without a quote \<open>handleBet\<close>
  returns without an alert.
\<close>

theorem handleBet_below_minimum:
  "handleBet now hour newId post (Some md) (MIN_BET_AMOUNT - 1) ftype target tf gameState
     = (Alert ''Minimum bet is 10 MemeCoins'', gameState)
   \<and> handleBet now hour newId post None (MIN_BET_AMOUNT - 1) ftype target tf gameState
     = (NoAction, gameState)
   \<and> MIN_BET_AMOUNT - 1 = 9"
  by (simp add: handleBet_def MIN_BET_AMOUNT_def)

subsection \<open>Price floor\<close>

lemma set_store_put: "set (store_put k v al) \<subseteq> insert (k, v) (set al)"
  by (induction al) (auto split: if_splits)

lemma store_put_pred:
  assumes "\<forall>kd \<in> set al. P (snd kd)" and "P v"
  shows "\<forall>kd \<in> set (store_put k v al). P (snd kd)"
  using assms set_store_put[of k v al] by auto

lemma price_floor_put:
  assumes "price_floor e" and "jle (Fin MIN_PRICE) (currentPrice d)"
  shows "price_floor (e\<lparr>me_marketData := store_put k d (me_marketData e)\<rparr>)"
  using store_put_pred[of "me_marketData e" "\<lambda>q. jle (Fin MIN_PRICE) (currentPrice q)" d k]
    assms
  by (simp add: price_floor_def)

text \<open>Rounding a price of at least one cent to two decimals gives at least one cent.\<close>

lemma js_round_cents_floor:
  assumes "1 / 100 \<le> y"
  shows "1 / 100 \<le> js_round (y * 100) / 100"
proof -
  have "(1::real) \<le> y * 100 + 1 / 2" using assms by simp
  then have "(1::int) \<le> \<lfloor>y * 100 + 1 / 2\<rfloor>" by (simp add: le_floor_iff)
  then have "(1::real) \<le> of_int \<lfloor>y * 100 + 1 / 2\<rfloor>" by linarith
  then show ?thesis by (simp add: js_round_def)
qed

text \<open>A price at or above a floor is a finite number at or above it, or \<open>Infinity\<close>.\<close>

lemma above_floor_cases:
  "jle (Fin m) x \<Longrightarrow> (\<exists>a. x = Fin a \<and> m \<le> a) \<or> x = PInf"
  by (cases x) simp_all

lemma floored_product:
  assumes "jle (Fin m) x" and "0 < f"
  shows "jle (Fin (1 / 100)) (jmax (Fin (1 / 100)) (jmul x (Fin f)))"
  using above_floor_cases[OF assms(1)] assms(2) by (auto simp: jsigned_inf_def)

lemma rounded_to_cents:
  assumes "jle (Fin (1 / 100)) y"
  shows "jle (Fin (1 / 100)) (jdiv (jround (jmul y (Fin 100))) (Fin 100))"
proof -
  from above_floor_cases[OF assms] show ?thesis
  proof
    assume "\<exists>a. y = Fin a \<and> 1 / 100 \<le> a"
    then obtain a where a: "y = Fin a" "1 / 100 \<le> a" by blast
    from js_round_cents_floor[OF a(2)] show ?thesis by (simp add: a)
  next
    assume "y = PInf"
    then show ?thesis by (simp add: jsigned_inf_def)
  qed
qed

lemma updatePostPrice_floor:
  assumes "price_floor (fst st)"
  shows "price_floor (fst (updatePostPrice now rnd k st))"
proof (cases "map_of (me_marketData (fst st)) k")
  case None
  then show ?thesis using assms by (simp add: updatePostPrice_def Let_def)
next
  case (Some d)
  from Some have "(k, d) \<in> set (me_marketData (fst st))" by (rule map_of_SomeD)
  with assms have prev: "jle (Fin MIN_PRICE) (currentPrice d)"
    by (auto simp: price_floor_def)
  have pos: "0 < 1 + max (- MAX_PRICE_CHANGE_PERCENT) x" for x :: real
    by (simp add: MAX_PRICE_CHANGE_PERCENT_def max_def)
  have "jle (Fin MIN_PRICE)
          (jdiv (jround (jmul (jmax (Fin MIN_PRICE)
             (jmul (currentPrice d) (Fin (1 + max (- MAX_PRICE_CHANGE_PERCENT) x))))
             (Fin 100))) (Fin 100))" for x
    using rounded_to_cents[OF floored_product[OF prev pos[of x]]]
    by (simp add: MIN_PRICE_def)
  then show ?thesis
    unfolding updatePostPrice_def Let_def Some option.case fst_conv
    by (intro price_floor_put[OF assms]) simp
qed

lemma updateAllPrices_floor:
  "price_floor (fst st) \<Longrightarrow> price_floor (fst (fold (updatePostPrice now rnd) ks st))"
  by (induction ks arbitrary: st) (simp_all add: updatePostPrice_floor)

lemma shockQuote_floor:
  assumes "price_floor e" and "0 < 1 + imp"
  shows "price_floor (shockQuote now imp k e)"
proof (cases "map_of (me_marketData e) k")
  case None
  then show ?thesis using assms by (simp add: shockQuote_def)
next
  case (Some d)
  from Some have "(k, d) \<in> set (me_marketData e)" by (rule map_of_SomeD)
  with assms have prev: "jle (Fin MIN_PRICE) (currentPrice d)"
    by (auto simp: price_floor_def)
  have "jle (Fin MIN_PRICE) (jmax (Fin (1 / 100)) (jmul (currentPrice d) (Fin (1 + imp))))"
    using floored_product[OF prev assms(2)] by (simp add: MIN_PRICE_def)
  then show ?thesis
    using Some price_floor_put[OF assms(1)] by (simp add: shockQuote_def Let_def)
qed

lemma triggerMarketEvent_floor:
  "price_floor e \<Longrightarrow> 0 < 1 + imp \<Longrightarrow> price_floor (fold (shockQuote now imp) ks e)"
  by (induction ks arbitrary: e) (simp_all add: shockQuote_floor)

lemma calculateInitialPrice_floor:
  assumes "getSubredditMultiplier (post_subreddit post) \<noteq> ObjectMember"
  shows "jle (Fin MIN_PRICE) (calculateInitialPrice now r post e)"
proof -
  obtain m where "getSubredditMultiplier (post_subreddit post) = Number m"
    using assms by (cases "getSubredditMultiplier (post_subreddit post)") simp_all
  then show ?thesis
    by (simp add: calculateInitialPrice_def Let_def MIN_PRICE_def)
qed

lemma calculateInitialPrice_inherited:
  "getSubredditMultiplier (post_subreddit post) = ObjectMember
     \<Longrightarrow> calculateInitialPrice now r post e = NaN"
  by (simp add: calculateInitialPrice_def Let_def)

lemma initializePostMarket_floor:
  assumes "price_floor (fst st)"
    and "getSubredditMultiplier (post_subreddit post) \<noteq> ObjectMember"
  shows "price_floor (fst (snd (initializePostMarket now rnd post st)))"
  using price_floor_put[OF assms(1)] calculateInitialPrice_floor[OF assms(2)]
  by (simp add: initializePostMarket_def Let_def)

lemma market_step_floor:
  "price_floor (fst st) \<Longrightarrow> own_subreddit_op op
     \<Longrightarrow> price_floor (fst (market_step rnd op st))"
  by (cases op)
     (simp_all add: initializePostMarket_floor updateAllPrices_def updateAllPrices_floor
        triggerMarketEvent_def Let_def triggerMarketEvent_floor)

text \<open>
  The floor is kept by every run whose initialised posts have a subreddit that, in lower
  case, does not name an inherited member.
\<close>

lemma price_floor_own_subreddits:
  "price_floor (fst st) \<Longrightarrow> \<forall>op \<in> set ops. own_subreddit_op op
     \<Longrightarrow> price_floor (fst (market_run rnd ops st))"
  unfolding market_run_def
  by (induction ops arbitrary: st) (simp_all add: market_step_floor)

lemma example_ops_floor:
  "price_floor (fst (market_run half example_ops (example_engine, 0)))"
proof -
  have start: "price_floor (fst (example_engine, 0::nat))"
    by (simp add: price_floor_def example_engine_def floor_quote_def MIN_PRICE_def)
  have own: "\<forall>op \<in> set example_ops. own_subreddit_op op"
    by (simp add: example_ops_def getSubredditMultiplier_def js_get_def toLowerCase_def
        SUBREDDIT_MULTIPLIERS_def example_post_def)
  from price_floor_own_subreddits[OF start own] show ?thesis .
qed

text \<open>A crash on a quote priced at the floor leaves it at the floor.\<close>

lemma crash_at_floor_example:
  "map (\<lambda>kd. currentPrice (snd kd))
     (me_marketData (snd (triggerMarketEvent 1700000030000 ''1700000030000'' Crash
        example_engine))) = [Fin (1 / 100)]"
  by (simp add: triggerMarketEvent_def shockQuote_def example_engine_def floor_quote_def
      Let_def)

lemma constructor_is_inherited:
  "getSubredditMultiplier (post_subreddit constructor_post) = ObjectMember"
  by (simp add: getSubredditMultiplier_def js_get_def toLowerCase_def
      SUBREDDIT_MULTIPLIERS_def OBJECT_PROTOTYPE_KEYS_def constructor_post_def example_post_def)

lemma constructor_initial_price:
  "currentPrice (fst (initializePostMarket 1700000040000 half constructor_post
     (example_engine, 0))) = NaN"
  by (simp add: initializePostMarket_def Let_def
      calculateInitialPrice_inherited[OF constructor_is_inherited])

lemma constructor_run_prices:
  "map (\<lambda>kd. (fst kd, currentPrice (snd kd)))
     (me_marketData (fst (market_run half constructor_ops (example_engine, 0))))
   = [(''post0'', Fin (1 / 100)), (''post2'', NaN)]"
proof -
  have pid: "post_id constructor_post = ''post2''"
    by (simp add: constructor_post_def)
  show ?thesis
    by (simp add: market_run_def constructor_ops_def initializePostMarket_def Let_def pid
        calculateInitialPrice_inherited[OF constructor_is_inherited]
        updateAllPrices_def updatePostPrice_def triggerMarketEvent_def shockQuote_def
        example_engine_def floor_quote_def
        calculateMarketVolatility_def sectorMultiplier_def cats_def half_def
        MIN_PRICE_def MIN_VOLATILITY_def BASE_VOLATILITY_def RANDOM_VOLATILITY_RANGE_def
        VOLATILITY_MULTIPLIER_def TIME_MULTIPLIER_MAX_def TIME_MULTIPLIER_BASE_def
        RANDOM_FACTOR_RANGE_def TRENDING_BIAS_FACTOR_def MAX_PRICE_CHANGE_PERCENT_def
        js_round_def)
qed

lemma constructor_run_breaks_floor:
  "price_floor example_engine
   \<and> \<not> price_floor (fst (market_run half constructor_ops (example_engine, 0)))"
proof -
  have start: "price_floor example_engine"
    by (simp add: price_floor_def example_engine_def floor_quote_def MIN_PRICE_def)
  have "(''post2'', NaN) \<in> set (map (\<lambda>kd. (fst kd, currentPrice (snd kd)))
        (me_marketData (fst (market_run half constructor_ops (example_engine, 0)))))"
    unfolding constructor_run_prices by simp
  then obtain kd where
    kd: "kd \<in> set (me_marketData (fst (market_run half constructor_ops (example_engine, 0))))"
      "currentPrice (snd kd) = NaN"
    by auto
  have "\<not> jle (Fin MIN_PRICE) (currentPrice (snd kd))"
    by (simp add: kd(2))
  with kd(1) have
    "\<not> price_floor (fst (market_run half constructor_ops (example_engine, 0)))"
    unfolding price_floor_def by blast
  with start show ?thesis by simp
qed

text \<open>
  Claim C6 (price floor). The claim is that \<open>initializePostMarket\<close>, every price tick and
  every market shock leave every tracked quote with \<open>currentPrice \<ge> MIN_PRICE\<close>. The
  floor is \<open>Math.max(0.01, ...)\<close>, which returns \<open>NaN\<close> for \<open>NaN\<close>. For a post from the
  subreddit \<open>constructor\<close> the lookup in \<open>getSubredditMultiplier\<close> finds an inherited
  function, which \<open>|| 1.0\<close> keeps; the initial price is \<open>NaN\<close>, and a tick and a crash
  leave it \<open>NaN\<close>, for which the test \<open>MIN_PRICE \<le> currentPrice\<close> is false, while the
  quote that was tracked before stays at the floor.
\<close>

theorem initializePostMarket_inherited_subreddit_is_NaN:
  "map (\<lambda>kd. (fst kd, currentPrice (snd kd))) (me_marketData example_engine)
     = [(''post0'', Fin (1 / 100))]
   \<and> getSubredditMultiplier (post_subreddit constructor_post) = ObjectMember
   \<and> currentPrice (fst (initializePostMarket 1700000040000 half constructor_post
        (example_engine, 0))) = NaN
   \<and> map (\<lambda>kd. (fst kd, currentPrice (snd kd)))
        (me_marketData (fst (market_run half constructor_ops (example_engine, 0))))
       = [(''post0'', Fin (1 / 100)), (''post2'', NaN)]
   \<and> map (\<lambda>kd. jle (Fin MIN_PRICE) (currentPrice (snd kd)))
        (me_marketData (fst (market_run half constructor_ops (example_engine, 0))))
       = [True, False]"
proof -
  have start: "map (\<lambda>kd. (fst kd, currentPrice (snd kd))) (me_marketData example_engine)
     = [(''post0'', Fin (1 / 100))]"
    by (simp add: example_engine_def floor_quote_def)
  have "map (\<lambda>p. jle (Fin MIN_PRICE) (snd p))
          (map (\<lambda>kd. (fst kd, currentPrice (snd kd)))
             (me_marketData (fst (market_run half constructor_ops (example_engine, 0)))))
        = [True, False]"
    unfolding constructor_run_prices by (simp add: MIN_PRICE_def)
  then have test: "map (\<lambda>kd. jle (Fin MIN_PRICE) (currentPrice (snd kd)))
        (me_marketData (fst (market_run half constructor_ops (example_engine, 0))))
       = [True, False]"
    by (simp add: comp_def)
  from start constructor_is_inherited constructor_initial_price constructor_run_prices test
  show ?thesis by blast
qed

subsection \<open>Portfolio resolution\<close>

text \<open>
  A pass over a portfolio with no active prediction changes no prediction and credits
  every won prediction once more.
\<close>

lemma resolveEach_no_active:
  "\<forall>p \<in> set ps. status p \<noteq> Active \<Longrightarrow> resolveEach now rnd posts ps c = (ps, c)"
  by (induction ps arbitrary: c) (simp_all add: resolveOne_def Let_def)

lemma fold_creditOne:
  "fold creditOne ps (m, x)
     = (m + sum_list (map (\<lambda>p. betAmount p * odds p) (filter (\<lambda>p. status p = Won) ps)),
        x + sum_list (map (\<lambda>p. js_floor (betAmount p * odds p * (1 / 10)))
              (filter (\<lambda>p. status p = Won) ps)))"
  by (induction ps arbitrary: m x) (simp_all add: creditOne_def Let_def algebra_simps)

lemma resolvePredictions_no_active:
  assumes "\<forall>p \<in> set (predictions portfolio). status p \<noteq> Active"
  shows "predictions (fst (resolvePredictions now rnd c portfolio posts))
           = predictions portfolio"
    and "memeCoins (fst (resolvePredictions now rnd c portfolio posts))
           = memeCoins portfolio
             + sum_list (map (\<lambda>p. betAmount p * odds p)
                 (filter (\<lambda>p. status p = Won) (predictions portfolio)))"
  using resolveEach_no_active[OF assms, of now rnd posts c]
  by (simp_all add: resolvePredictions_def Let_def fold_creditOne)

text \<open>
  An active \<open>milestone_reach\<close> prediction whose target the post has reached is marked
  won by the pass at any clock reading and for any timeframe.
\<close>

lemma resolveOne_milestone_at_once:
  assumes "status p = Active"
    and "find (\<lambda>q. post_id q = pred_postId p) posts = Some post"
    and "predictionType p = ''milestone_reach''"
    and "targetValue p \<le> post_score post"
  shows "resolveOne now rnd posts p c = (p\<lparr>status := Won, resolved := Some now\<rparr>, c)"
  using assms by (simp add: resolveOne_def resolveVerdict_def Let_def)

lemma once_resolved_value:
  "once_resolved = example_portfolio
     \<lparr> memeCoins := 1000, experience := 2,
       predictions :=
         [(example_bet ''pred_hit'' 1000)\<lparr>status := Won, resolved := Some 1700000060000\<rparr>,
          (example_bet ''pred_miss'' 5000)\<lparr>status := Lost, resolved := Some 1700000060000\<rparr>] \<rparr>"
  by (simp add: once_resolved_def resolvePredictions_def resolveOne_def resolveVerdict_def
      creditOne_def fresh_portfolio_def example_portfolio_def example_bet_def example_post_def
      hoursOld_def PREDICTION_EXPIRY_HOURS_def js_floor_def Let_def calculateLevel_def
      LEVELS_def)

text \<open>
  Claim C1 (resolution is idempotent). The claim is that resolving a portfolio whose
  prediction is already won leaves the balance and the predictions unchanged.
  \<open>resolvePredictions\<close> credits \<open>betAmount * odds\<close> for every prediction whose status is
  won, also for one that an earlier call resolved and paid. Alice's first prediction was
  won and paid by the first pass (balance 980 to 1000); a second pass leaves the
  predictions as they are and pays the same 20 coins again.
\<close>

theorem resolvePredictions_pays_won_again:
  "map status (predictions once_resolved) = [Won, Lost]
   \<and> memeCoins once_resolved = 1000
   \<and> predictions (fst (resolvePredictions 1700000060000 half 0 once_resolved [example_post]))
       = predictions once_resolved
   \<and> memeCoins (fst (resolvePredictions 1700000060000 half 0 once_resolved [example_post]))
       = 1020"
  unfolding once_resolved_value
  by (simp add: resolvePredictions_def resolveOne_def resolveVerdict_def creditOne_def
      example_portfolio_def example_bet_def example_post_def hoursOld_def
      PREDICTION_EXPIRY_HOURS_def js_floor_def Let_def)

text \<open>
  Claim C2 (no verdict before the deadline). The claim is that an active prediction stays
  as it is, with no credit, while the clock is before its creation time plus the hours of
  its timeframe. \<open>resolvePredictions\<close> does not read the timeframe. Both of Alice's bets
  were placed at millisecond 1700000000000 with timeframe \<open>LONG\<close>, so they are due 24 hours
  later; one minute after the bets the pass marks the first won and pays it, and marks the
  second lost. \<open>PredictionEngine.resolvePrediction\<close>, which holds the deadline test, gives
  no win for the first bet at that time.
\<close>

theorem resolvePredictions_ignores_deadline:
  "map status (predictions fresh_portfolio) = [Active, Active]
   \<and> map timeframe (predictions fresh_portfolio) = [''LONG'', ''LONG'']
   \<and> map (\<lambda>p. pred_created p + 24 * 60 * 60 * 1000) (predictions fresh_portfolio)
       = [1700086400000, 1700086400000]
   \<and> map status
        (predictions (fst (resolvePredictions 1700000060000 half 0 fresh_portfolio
           [example_post]))) = [Won, Lost]
   \<and> memeCoins (fst (resolvePredictions 1700000060000 half 0 fresh_portfolio [example_post]))
       = memeCoins fresh_portfolio + 20
   \<and> resolvePrediction 1700000060000 (example_bet ''pred_hit'' 1000) example_post example_quote
       = Inr False"
proof -
  have before: "map status (predictions fresh_portfolio) = [Active, Active]"
    by (simp add: fresh_portfolio_def example_bet_def)
  have due: "map timeframe (predictions fresh_portfolio) = [''LONG'', ''LONG'']"
    "map (\<lambda>p. pred_created p + 24 * 60 * 60 * 1000) (predictions fresh_portfolio)
       = [1700086400000, 1700086400000]"
    by (simp_all add: fresh_portfolio_def example_bet_def)
  have after: "map status
        (predictions (fst (resolvePredictions 1700000060000 half 0 fresh_portfolio
           [example_post]))) = [Won, Lost]"
    using once_resolved_value by (simp add: once_resolved_def)
  have paid: "memeCoins (fst (resolvePredictions 1700000060000 half 0 fresh_portfolio
                 [example_post])) = memeCoins fresh_portfolio + 20"
    using once_resolved_value by (simp add: once_resolved_def fresh_portfolio_def)
  have engine: "resolvePrediction 1700000060000 (example_bet ''pred_hit'' 1000) example_post
                  example_quote = Inr False"
    by (rule resolvePrediction_before_deadline[where
          cfg = "\<lparr>hours = 24, tf_volatility = 8 / 10, baseMultiplier = 1\<rparr>"])
       (simp_all add: example_bet_def js_get_def PREDICTION_TIMEFRAMES_def)
  from before due after paid engine show ?thesis by blast
qed

end
